theory Spec2Isabelle
  imports Complex_Main "HOL-Library.Log_Nat"
begin

section \<open>The XRP uplink of moneyd: a shallow embedding of index.js\<close>

text \<open>
  The module index.js exports \<open>configure\<close> and three commands that run methods of the
  class \<open>XrpUplink\<close>. (The source file holds an earlier revision of the module as
  well, which exports the class alone; the embedding follows the later one.) Its
  asynchronous functions are modelled as state passing: every
  function that talks to the outside takes the world and returns the world it leaves,
  and a rejected promise or a thrown exception is the \<open>Inl\<close> branch of a sum.

  The arithmetic of JavaScript numbers is not computed here: a number is a value of a
  type \<open>'n\<close> the runtime is given over, and addition, subtraction, multiplication
  and \<open><\<close> on numbers are operations of the runtime, as the conversions between
  strings and numbers are. Taken as the operations of the language on its IEEE 754
  doubles they round, overflow and treat \<open>NaN\<close> as the program does; no theorem
  below depends on what they compute. Ledger timestamps and milliseconds are whole numbers far below \<open>2 ^ 53\<close>,
  where doubles are exact, and are \<open>int\<close>.
\<close>

subsection \<open>Errors, events and the world\<close>

text \<open>A JavaScript error object: the name of its class and its message.\<close>

record js_error =
  error_name :: string
  message :: string

text \<open>\<^verbatim>\<open>new Error(msg)\<close>\<close>

definition Error :: "string \<Rightarrow> js_error" where
  "Error msg = \<lparr>error_name = ''Error'', message = msg\<rparr>"

text \<open>
  Everything the program does to the outside, in the order it does it: lines written to
  the console, questions put to the user, requests sent to a rippled server through
  ripple-lib, submissions through the submitter of ilp-plugin-xrp-paychan-shared, the
  faucet request, the timer and \<open>process.exit\<close>.
\<close>

datatype event =
    ConsoleLog string
  | ConsoleError string
  | Prompt string
  | Connect string
  | Subscribe "string list"
  | AccountChannels string
  | GetAccountInfo string
  | GetServerInfo
  | Submit string string bool
  | HttpPost string
  | SetTimeout nat
  | ProcessExit nat

text \<open>
  The world: the events so far, and how many times \<open>Date.now()\<close> has been read.
\<close>

record world =
  trace :: "event list"
  ticks :: nat

definition emit :: "event \<Rightarrow> world \<Rightarrow> world" where
  "emit ev w = w\<lparr>trace := trace w @ [ev]\<rparr>"

text \<open>
  \<open>console.log\<close> and \<open>console.error\<close> join their arguments with one space; the
  callers below pass the joined line.
\<close>

definition console_log :: "string \<Rightarrow> world \<Rightarrow> world" where
  "console_log line w = emit (ConsoleLog line) w"

definition console_error :: "string \<Rightarrow> world \<Rightarrow> world" where
  "console_error line w = emit (ConsoleError line) w"

subsection \<open>What the module requires\<close>

text \<open>
  The language and the libraries index.js calls, as parameters: the arithmetic of
  numbers (\<open>js_plus\<close>, \<open>js_minus\<close>, \<open>js_times\<close> and \<open>js_less\<close> are \<open>+\<close>, \<open>-\<close>,
  \<open>*\<close> and \<open><\<close> on two numbers, \<open>js_one\<close> is the literal \<open>1\<close>), string to
  number and number to string conversion, chalk's colours, moment's
  \<open>duration(ms).humanize()\<close>, good-table's \<open>table\<close>, the clock (\<open>Date_now rt k\<close> is
  the value of the k-th reading of \<open>Date.now()\<close>), node's keyed hash (algorithm, key,
  data) and base64 encoding, ripple-keypairs' address derivation, the constant of
  ilp-plugin-xrp-asym-client as a number and the path \<open>require.resolve\<close> gives for
  it. The files connector_list.json and rippled_list.json of the repository are
  parameters too (the argument is \<open>testnet\<close>: the entry \<open>test\<close> or \<open>live\<close>).
\<close>

record 'n runtime =
  js_plus :: "'n \<Rightarrow> 'n \<Rightarrow> 'n"
  js_minus :: "'n \<Rightarrow> 'n \<Rightarrow> 'n"
  js_times :: "'n \<Rightarrow> 'n \<Rightarrow> 'n"
  js_less :: "'n \<Rightarrow> 'n \<Rightarrow> bool"
  js_one :: 'n
  Number :: "string \<Rightarrow> 'n"
  String_of_number :: "'n \<Rightarrow> string"
  chalk_blue :: "string \<Rightarrow> string"
  chalk_yellow :: "string \<Rightarrow> string"
  chalk_green :: "string \<Rightarrow> string"
  humanize :: "int \<Rightarrow> string"
  table :: "string list list \<Rightarrow> string"
  Date_now :: "nat \<Rightarrow> int"
  hmac_digest :: "string \<Rightarrow> string \<Rightarrow> string \<Rightarrow> string"
  to_base64 :: "string \<Rightarrow> string"
  deriveKeypair_publicKey :: "string \<Rightarrow> string"
  deriveAddress :: "string \<Rightarrow> string"
  OUTGOING_CHANNEL_DEFAULT_AMOUNT :: 'n
  plugin_path :: string
  connectorList :: "bool \<Rightarrow> string list"
  rippledList :: "bool \<Rightarrow> string list"

text \<open>Reading \<open>Date.now()\<close> once.\<close>

definition now :: "'n runtime \<Rightarrow> world \<Rightarrow> int \<times> world" where
  "now rt w = (Date_now rt (ticks w), w\<lparr>ticks := Suc (ticks w)\<rparr>)"

subsection \<open>Channels and their rendering\<close>

text \<open>
  An entry of rippled's \<open>account_channels\<close> reply. The amounts are strings of drops;
  \<open>expiration\<close> is absent (\<open>None\<close>) on a channel that has none.
\<close>

record channel =
  channel_id :: string
  destination_account :: string
  amount :: string
  balance :: string
  expiration :: "int option"

text \<open>\<open>String(i)\<close> and \<open>i.toString()\<close> of an array index.\<close>

definition digit_char :: "nat \<Rightarrow> char" where
  "digit_char d = ''0123456789'' ! d"

function String_nat :: "nat \<Rightarrow> string" where
  "String_nat n =
     (if n < 10 then [digit_char n] else String_nat (n div 10) @ [digit_char (n mod 10)])"
  by pat_completeness auto
termination
  by (relation "measure id") auto

declare String_nat.simps [simp del]

text \<open>
  \<^verbatim>\<open>
  function comma (a) {
    return a.split('').map((e, i) => {
        if ((a.length - i) % 3 === 1 && i < a.length - 1) { return e + ',' }
        else { return e }
      }).join('')
  }
  \<close>
  The index \<open>i\<close> is below \<open>a.length\<close> in every call of the callback, so the
  subtractions are exact on \<open>nat\<close> and \<open>%\<close> is \<open>mod\<close>.
\<close>

definition comma :: "string \<Rightarrow> string" where
  "comma a =
     concat (map (\<lambda>(i, e). if (length a - i) mod 3 = 1 \<and> i < length a - 1
                            then [e, CHR '',''] else [e])
                 (enumerate 0 a))"

text \<open>
  \<^verbatim>\<open>
  function formatChannelExpiration (exp) {
    if (!exp) return ''
    const unixExp = (exp + 0x386D4380) * 1000
    if (unixExp <= Date.now()) return chalk.blue('ready to close')
    return chalk.yellow('in ' + moment.duration(unixExp - Date.now()).humanize())
  }
  \<close>
  \<open>!exp\<close> holds of an absent expiration and of 0 (the argument is \<open>exp'\<close> here:
  \<open>exp\<close> is the exponential function of HOL). The clock is read once for the
  comparison and once more for the duration.
\<close>

definition formatChannelExpiration :: "'n runtime \<Rightarrow> int option \<Rightarrow> world \<Rightarrow> string \<times> world" where
  "formatChannelExpiration rt exp' w =
     (case exp' of
        None \<Rightarrow> ('''', w)
      | Some e \<Rightarrow>
          if e = 0 then ('''', w)
          else
            let unixExp = (e + 0x386D4380) * 1000;
                (t1, w1) = now rt w
            in if unixExp \<le> t1 then (chalk_blue rt ''ready to close'', w1)
               else
                 let (t2, w2) = now rt w1
                 in (chalk_yellow rt (''in '' @ humanize rt (unixExp - t2)), w2))"

text \<open>
  \<^verbatim>\<open>
  function formatChannelToRow (c, i) {
    return [ String(i), c.channel_id.substring(0, 8) + '...', c.destination_account,
      comma(c.amount), comma(c.balance), formatChannelExpiration(c.expiration) ]
  }
  \<close>
\<close>

definition formatChannelToRow :: "'n runtime \<Rightarrow> channel \<Rightarrow> nat \<Rightarrow> world \<Rightarrow> string list \<times> world" where
  "formatChannelToRow rt c i w =
     (let (label, w1) = formatChannelExpiration rt (expiration c) w
      in ([String_nat i,
           take 8 (channel_id c) @ ''...'',
           destination_account c,
           comma (amount c),
           comma (balance c),
           label], w1))"

text \<open>\<open>channels.map(formatChannelToRow)\<close>, from index \<open>i\<close> on.\<close>

fun map_formatChannelToRow ::
  "'n runtime \<Rightarrow> channel list \<Rightarrow> nat \<Rightarrow> world \<Rightarrow> string list list \<times> world" where
  "map_formatChannelToRow rt [] i w = ([], w)"
| "map_formatChannelToRow rt (c # cs) i w =
     (let (row, w1) = formatChannelToRow rt c i w;
          (rows, w2) = map_formatChannelToRow rt cs (Suc i) w1
      in (row # rows, w2))"

subsection \<open>The remote services\<close>

text \<open>
  What ripple-lib's \<open>getAccountInfo\<close> and \<open>getServerInfo().validatedLedger\<close> give:
  the balance and the reserves are decimal strings of XRP, the owner count a number.
\<close>

record 'n account_info =
  xrpBalance :: string
  ownerCount :: 'n

record server_info =
  reserveBaseXRP :: string
  reserveIncrementXRP :: string

text \<open>The account the testnet faucet answers with (\<open>json.account\<close>).\<close>

record faucet_account =
  account_address :: string
  account_secret :: string

text \<open>
  The servers are not part of the program: each request is answered by a parameter
  that sees every event so far, the request itself last. An answer is an error (the
  promise rejects) or a value.
\<close>

record 'n services =
  connect_reply :: "event list \<Rightarrow> js_error + unit"
  subscribe_reply :: "event list \<Rightarrow> js_error + unit"
  account_channels_reply :: "event list \<Rightarrow> js_error + channel list"
  getAccountInfo_reply :: "event list \<Rightarrow> js_error + 'n account_info"
  getServerInfo_reply :: "event list \<Rightarrow> js_error + server_info"
  submit_reply :: "event list \<Rightarrow> js_error + unit"
  faucet_reply :: "event list \<Rightarrow> js_error + faucet_account"

text \<open>Sending a request and awaiting its answer.\<close>

definition request :: "(event list \<Rightarrow> js_error + 'a) \<Rightarrow> event \<Rightarrow> world \<Rightarrow> (js_error + 'a) \<times> world" where
  "request reply ev w = (let w1 = emit ev w in (reply (trace w1), w1))"

subsection \<open>Account validation\<close>

definition dquote :: char where
  "dquote = CHR 0x22"

text \<open>
  \<^verbatim>\<open>
  async function validateAddress (server, address) {
    const api = new RippleAPI({ server })
    await api.connect()
    const accountInfo = await api.getAccountInfo(address).catch((err) => {
      if (err.message !== 'actNotFound') throw err
      throw new Error('Address "' + address + '" does not exist on ' + server)
    })
    const { validatedLedger: { reserveBaseXRP, reserveIncrementXRP } } = await api.getServerInfo()
    const minBalance = (+reserveBaseXRP) + (+reserveIncrementXRP) * accountInfo.ownerCount +
      (+reserveIncrementXRP) + (+Plugin.OUTGOING_CHANNEL_DEFAULT_AMOUNT) + 1
    const currentBalance = +accountInfo.xrpBalance
    if (currentBalance < minBalance) {
      throw new Error('account balance is too low (must be at least ' + minBalance + ')')
    }
  }
  \<close>
  The unary plus on a string is \<open>Number\<close>; \<open>OUTGOING_CHANNEL_DEFAULT_AMOUNT rt\<close> is
  the number \<open>+Plugin.OUTGOING_CHANNEL_DEFAULT_AMOUNT\<close>. The sum is taken from left to
  right, the product first, as the language does. The arguments are \<open>srv\<close> and
  \<open>addr\<close> here, \<open>server\<close> and \<open>address\<close> being fields of the plugin options below.
\<close>

definition validateAddress ::
  "'n runtime \<Rightarrow> 'n services \<Rightarrow> string \<Rightarrow> string \<Rightarrow> world \<Rightarrow> (js_error + unit) \<times> world" where
  "validateAddress rt sv srv addr w =
     (case request (connect_reply sv) (Connect srv) w of
        (Inl err, w1) \<Rightarrow> (Inl err, w1)
      | (Inr _, w1) \<Rightarrow>
          (case request (getAccountInfo_reply sv) (GetAccountInfo addr) w1 of
             (Inl err, w2) \<Rightarrow>
               if message err \<noteq> ''actNotFound'' then (Inl err, w2)
               else (Inl (Error (''Address '' @ [dquote] @ addr @ [dquote] @
                                 '' does not exist on '' @ srv)), w2)
           | (Inr accountInfo, w2) \<Rightarrow>
               (case request (getServerInfo_reply sv) GetServerInfo w2 of
                  (Inl err, w3) \<Rightarrow> (Inl err, w3)
                | (Inr validatedLedger, w3) \<Rightarrow>
                    let minBalance =
                          js_plus rt
                            (js_plus rt
                              (js_plus rt
                                (js_plus rt
                                  (Number rt (reserveBaseXRP validatedLedger))
                                  (js_times rt (Number rt (reserveIncrementXRP validatedLedger))
                                               (ownerCount accountInfo)))
                                (Number rt (reserveIncrementXRP validatedLedger)))
                              (OUTGOING_CHANNEL_DEFAULT_AMOUNT rt))
                            (js_one rt);
                        currentBalance = Number rt (xrpBalance accountInfo)
                    in if js_less rt currentBalance minBalance
                       then (Inl (Error (''account balance is too low (must be at least '' @
                                         String_of_number rt minBalance @ '')'')), w3)
                       else (Inr (), w3))))"

subsection \<open>The uplink\<close>

text \<open>The configuration \<open>configure\<close> returns, and its plugin options.\<close>

record plugin_options =
  server :: string
  secret :: string
  address :: string
  xrpServer :: string

record balance_config =
  minimum :: string
  maximum :: string
  settleThreshold :: string
  settleTo :: string

record uplink_config =
  relation :: string
  plugin :: string
  assetCode :: string
  assetScale :: nat
  balance_cfg :: balance_config
  sendRoutes :: bool
  receiveRoutes :: bool
  options :: plugin_options

text \<open>A ripple-lib client, \<^verbatim>\<open>new RippleAPI({ server })\<close>, known by its server.\<close>

datatype RippleAPI = RippleAPI string

text \<open>
  \<^verbatim>\<open>
  constructor (config) {
    this.config = config
    this.pluginOpts = config.options
    this.api = null
    this.subscribed = false
  }
  \<close>
\<close>

record XrpUplink =
  config :: uplink_config
  pluginOpts :: plugin_options
  api :: "RippleAPI option"
  subscribed :: bool

definition makeUplink :: "uplink_config \<Rightarrow> XrpUplink" where
  "makeUplink cfg = \<lparr>config = cfg, pluginOpts = options cfg, api = None, subscribed = False\<rparr>"

text \<open>
  \<^verbatim>\<open>
  async _rippleApi () {
    if (!this.api) {
      this.api = new RippleAPI({ server: this.pluginOpts.xrpServer })
      await this.api.connect()
    }
    return this.api
  }
  \<close>
  The field is assigned before the connection is awaited: it stays assigned when
  \<open>connect\<close> rejects.
\<close>

definition priv_rippleApi ::
  "'n services \<Rightarrow> XrpUplink \<Rightarrow> world \<Rightarrow> (js_error + RippleAPI) \<times> XrpUplink \<times> world" where
  "priv_rippleApi sv this w =
     (case api this of
        None \<Rightarrow>
          let a = RippleAPI (xrpServer (pluginOpts this));
              this1 = this\<lparr>api := Some a\<rparr>
          in (case request (connect_reply sv) (Connect (xrpServer (pluginOpts this))) w of
                (Inl err, w1) \<Rightarrow> (Inl err, this1, w1)
              | (Inr _, w1) \<Rightarrow> (Inr a, this1, w1))
      | Some a \<Rightarrow> (Inr a, this, w))"

text \<open>
  The submitter of ilp-plugin-xrp-paychan-shared, \<open>createSubmitter(api, address,
  secret)\<close>: known by what it was made from. Its \<open>submit\<close> is a request like the others.
\<close>

record submitter =
  submitter_api :: RippleAPI
  submitter_address :: string
  submitter_secret :: string

definition createSubmitter :: "RippleAPI \<Rightarrow> string \<Rightarrow> string \<Rightarrow> submitter" where
  "createSubmitter a addr sec =
     \<lparr>submitter_api = a, submitter_address = addr, submitter_secret = sec\<rparr>"

definition submit ::
  "'n services \<Rightarrow> submitter \<Rightarrow> string \<Rightarrow> string \<Rightarrow> bool \<Rightarrow> world \<Rightarrow> (js_error + unit) \<times> world" where
  "submit sv s method channelId close w =
     request (submit_reply sv) (Submit method channelId close) w"

text \<open>
  \<^verbatim>\<open>
  async _submitter () {
    const api = await this._rippleApi()
    if (!this.subscribed) {
      this.subscribed = true
      await api.connection.request({ command: 'subscribe', accounts: [ this.pluginOpts.address ] })
    }
    return createSubmitter(api, this.pluginOpts.address, this.pluginOpts.secret)
  }
  \<close>
\<close>

definition priv_submitter ::
  "'n services \<Rightarrow> XrpUplink \<Rightarrow> world \<Rightarrow> (js_error + submitter) \<times> XrpUplink \<times> world" where
  "priv_submitter sv this w =
     (case priv_rippleApi sv this w of
        (Inl err, this1, w1) \<Rightarrow> (Inl err, this1, w1)
      | (Inr a, this1, w1) \<Rightarrow>
          if \<not> subscribed this1 then
            let this2 = this1\<lparr>subscribed := True\<rparr>
            in (case request (subscribe_reply sv) (Subscribe [address (pluginOpts this2)]) w1 of
                  (Inl err, w2) \<Rightarrow> (Inl err, this2, w2)
                | (Inr _, w2) \<Rightarrow>
                    (Inr (createSubmitter a (address (pluginOpts this2)) (secret (pluginOpts this2))),
                     this2, w2))
          else
            (Inr (createSubmitter a (address (pluginOpts this1)) (secret (pluginOpts this1))),
             this1, w1))"

text \<open>
  \<^verbatim>\<open>
  async _listChannels () {
    const api = await this._rippleApi()
    console.log('fetching channels...')
    const res = await api.connection.request({ command: 'account_channels', account: this.pluginOpts.address })
    return res.channels
  }
  \<close>
\<close>

definition priv_listChannels ::
  "'n services \<Rightarrow> XrpUplink \<Rightarrow> world \<Rightarrow> (js_error + channel list) \<times> XrpUplink \<times> world" where
  "priv_listChannels sv this w =
     (case priv_rippleApi sv this w of
        (Inl err, this1, w1) \<Rightarrow> (Inl err, this1, w1)
      | (Inr a, this1, w1) \<Rightarrow>
          let w2 = console_log ''fetching channels...'' w1
          in (case request (account_channels_reply sv)
                     (AccountChannels (address (pluginOpts this1))) w2 of
                (res, w3) \<Rightarrow> (res, this1, w3)))"

text \<open>
  \<^verbatim>\<open>
  async _printChannels (channels) {
    console.log('connecting to xrp ledger...')
    const api = await this._rippleApi()
    const res = await api.getAccountInfo(this.pluginOpts.address)
    const serverInfo = await api.getServerInfo()
    const reserveBase = Number(serverInfo.validatedLedger.reserveBaseXRP)
    const reserveInc = Number(serverInfo.validatedLedger.reserveIncrementXRP)
    const reserved = Number(res.ownerCount) * reserveInc + reserveBase
    console.log(chalk.green('account:'), this.pluginOpts.address)
    console.log(chalk.green('balance:'), res.xrpBalance + ' XRP')
    console.log(chalk.yellow('  reserved:'), String(reserved) + ' XRP')
    console.log(chalk.yellow('  available:'), (Number(res.xrpBalance) - reserved) + ' XRP')
    console.log()
    if (!channels.length) { return console.error('No channels found') }
    console.log(table([
      [ chalk.green('index'), chalk.green('channel id'), chalk.green('destination'),
        chalk.green('amount (drops)'), chalk.green('balance (drops)'), chalk.green('expiry') ],
      ...channels.map(formatChannelToRow) ]))
  }
  \<close>
  \<open>Number\<close> of the owner count, a number already, changes nothing.
\<close>

definition priv_printChannels ::
  "'n runtime \<Rightarrow> 'n services \<Rightarrow> channel list \<Rightarrow> XrpUplink \<Rightarrow> world \<Rightarrow>
     (js_error + unit) \<times> XrpUplink \<times> world" where
  "priv_printChannels rt sv channels this w =
     (let w0 = console_log ''connecting to xrp ledger...'' w
      in case priv_rippleApi sv this w0 of
           (Inl err, this1, w1) \<Rightarrow> (Inl err, this1, w1)
         | (Inr a, this1, w1) \<Rightarrow>
             (case request (getAccountInfo_reply sv)
                     (GetAccountInfo (address (pluginOpts this1))) w1 of
                (Inl err, w2) \<Rightarrow> (Inl err, this1, w2)
              | (Inr res, w2) \<Rightarrow>
                  (case request (getServerInfo_reply sv) GetServerInfo w2 of
                     (Inl err, w3) \<Rightarrow> (Inl err, this1, w3)
                   | (Inr validatedLedger, w3) \<Rightarrow>
                       let reserveBase = Number rt (reserveBaseXRP validatedLedger);
                           reserveInc = Number rt (reserveIncrementXRP validatedLedger);
                           reserved = js_plus rt (js_times rt (ownerCount res) reserveInc)
                                                 reserveBase;
                           w4 = console_log (chalk_green rt ''account:'' @ '' '' @
                                             address (pluginOpts this1)) w3;
                           w5 = console_log (chalk_green rt ''balance:'' @ '' '' @
                                             xrpBalance res @ '' XRP'') w4;
                           w6 = console_log (chalk_yellow rt ''  reserved:'' @ '' '' @
                                             String_of_number rt reserved @ '' XRP'') w5;
                           w7 = console_log (chalk_yellow rt ''  available:'' @ '' '' @
                                             String_of_number rt (js_minus rt (Number rt (xrpBalance res)) reserved) @
                                             '' XRP'') w6;
                           w8 = console_log '''' w7
                       in if channels = [] then (Inr (), this1, console_error ''No channels found'' w8)
                          else
                            let (rows, w9) = map_formatChannelToRow rt channels 0 w8
                            in (Inr (), this1,
                                console_log
                                  (table rt
                                    ([chalk_green rt ''index'', chalk_green rt ''channel id'',
                                      chalk_green rt ''destination'', chalk_green rt ''amount (drops)'',
                                      chalk_green rt ''balance (drops)'', chalk_green rt ''expiry'']
                                     # rows)) w9))))"

text \<open>
  The loop of \<open>cleanupChannels\<close>:
  \<^verbatim>\<open>
    for (const channel of channels) {
      const channelId = channel.channel_id
      console.log('Closing channel ' + channelId)
      try {
        await submitter.submit('preparePaymentChannelClaim', { channel: channelId, close: true })
      } catch (err) {
        console.error('Warning for channel ' + channelId + ':', err.message)
      }
    }
  \<close>
  An element of \<open>channels\<close> is \<open>None\<close> where \<open>allChannels[+index]\<close> was out of range
  (\<open>undefined\<close>): reading its \<open>channel_id\<close> throws a TypeError outside the \<open>try\<close>.
\<close>

fun closeChannels ::
  "'n services \<Rightarrow> submitter \<Rightarrow> channel option list \<Rightarrow> world \<Rightarrow> (js_error + unit) \<times> world" where
  "closeChannels sv s [] w = (Inr (), w)"
| "closeChannels sv s (None # channels) w =
     (Inl \<lparr>error_name = ''TypeError'',
           message = ''Cannot read property 'channel_id' of undefined''\<rparr>, w)"
| "closeChannels sv s (Some channel # channels) w =
     (let channelId = channel_id channel;
          w1 = console_log (''Closing channel '' @ channelId) w
      in case submit sv s ''preparePaymentChannelClaim'' channelId True w1 of
           (Inl err, w2) \<Rightarrow>
             closeChannels sv s channels
               (console_error (''Warning for channel '' @ channelId @ '':'' @ '' '' @ message err) w2)
         | (Inr _, w2) \<Rightarrow> closeChannels sv s channels w2)"

text \<open>
  \<^verbatim>\<open>
  async cleanupChannels () {
    const allChannels = await this._listChannels()
    await this._printChannels(allChannels)
    if (!allChannels.length) return
    const result = await inquirer.prompt({ type: 'checkbox', name: 'marked',
      message: 'Select channels to close:', choices: allChannels.map((_, i) => i.toString()) })
    const channels = result.marked.map((index) => allChannels[+index])
    const submitter = await this._submitter()
    for (const channel of channels) { ... }
  }
  \<close>
  \<open>marked\<close> is what the user ticked, each choice read back as the number it names.
\<close>

definition cleanupChannels ::
  "'n runtime \<Rightarrow> 'n services \<Rightarrow> nat list \<Rightarrow> XrpUplink \<Rightarrow> world \<Rightarrow>
     (js_error + unit) \<times> XrpUplink \<times> world" where
  "cleanupChannels rt sv marked this w =
     (case priv_listChannels sv this w of
        (Inl err, this1, w1) \<Rightarrow> (Inl err, this1, w1)
      | (Inr allChannels, this1, w1) \<Rightarrow>
          (case priv_printChannels rt sv allChannels this1 w1 of
             (Inl err, this2, w2) \<Rightarrow> (Inl err, this2, w2)
           | (Inr _, this2, w2) \<Rightarrow>
               if allChannels = [] then (Inr (), this2, w2)
               else
                 let w3 = emit (Prompt ''marked'') w2;
                     channels = map (\<lambda>index. if index < length allChannels
                                               then Some (allChannels ! index) else None) marked
                 in (case priv_submitter sv this2 w3 of
                       (Inl err, this3, w4) \<Rightarrow> (Inl err, this3, w4)
                     | (Inr s, this3, w4) \<Rightarrow>
                         (case closeChannels sv s channels w4 of
                            (res, w5) \<Rightarrow> (res, this3, w5)))))"

text \<open>
  The handler of the \<open>cleanup\<close> command:
  \<^verbatim>\<open>handler: (config, argv) => makeUplink(config).cleanupChannels()\<close>
\<close>

definition cleanup_handler ::
  "'n runtime \<Rightarrow> 'n services \<Rightarrow> nat list \<Rightarrow> uplink_config \<Rightarrow> world \<Rightarrow>
     (js_error + unit) \<times> XrpUplink \<times> world" where
  "cleanup_handler rt sv marked cfg w = cleanupChannels rt sv marked (makeUplink cfg) w"

subsection \<open>Configuration\<close>

definition parentBtpHmacKey :: string where
  "parentBtpHmacKey = ''parent_btp_uri''"

text \<open>
  Node's \<open>crypto.createHmac(algorithm, key)\<close> object: it collects what \<open>update\<close>
  feeds it; \<open>digest\<close> is the library's keyed hash of the collected data. Strings are
  their UTF-8 bytes and a Buffer is its bytes, so both are \<open>string\<close>.
  \<^verbatim>\<open>
  function hmac (key, message) {
    const h = crypto.createHmac('sha256', key)
    h.update(message)
    return h.digest()
  }
  \<close>
  (The second argument is \<open>msg\<close> here, \<open>message\<close> being the field of an error.)
\<close>

record Hmac =
  hmac_algorithm :: string
  hmac_key :: string
  hmac_data :: string

definition createHmac :: "string \<Rightarrow> string \<Rightarrow> Hmac" where
  "createHmac algorithm key = \<lparr>hmac_algorithm = algorithm, hmac_key = key, hmac_data = ''''\<rparr>"

definition Hmac_update :: "Hmac \<Rightarrow> string \<Rightarrow> Hmac" where
  "Hmac_update h msg = h\<lparr>hmac_data := hmac_data h @ msg\<rparr>"

definition Hmac_digest :: "'n runtime \<Rightarrow> Hmac \<Rightarrow> string" where
  "Hmac_digest rt h = hmac_digest rt (hmac_algorithm h) (hmac_key h) (hmac_data h)"

definition hmac :: "'n runtime \<Rightarrow> string \<Rightarrow> string \<Rightarrow> string" where
  "hmac rt key msg =
     (let h = createHmac ''sha256'' key;
          h1 = Hmac_update h msg
      in Hmac_digest rt h1)"

text \<open>\<open>buf.toString('hex')\<close>: two lower-case hexadecimal digits for each byte.\<close>

definition hex_digit :: "nat \<Rightarrow> char" where
  "hex_digit d = ''0123456789abcdef'' ! d"

definition toString_hex :: "string \<Rightarrow> string" where
  "toString_hex buf =
     concat (map (\<lambda>b. [hex_digit (of_char b div 16), hex_digit (of_char b mod 16)]) buf)"

text \<open>
  \<^verbatim>\<open>
  const base64url = buf => buf.toString('base64')
    .replace(/=/g, '').replace(/\+/g, '-').replace(/\//g, '_')
  \<close>
\<close>

definition base64url :: "'n runtime \<Rightarrow> string \<Rightarrow> string" where
  "base64url rt buf =
     map (\<lambda>c. if c = CHR ''/'' then CHR ''_'' else c)
       (map (\<lambda>c. if c = CHR ''+'' then CHR ''-'' else c)
         (filter (\<lambda>c. c \<noteq> CHR ''='') (to_base64 rt buf)))"

text \<open>
  What one call of \<open>configure\<close> is given: its two flags, the two indices
  \<open>Math.floor(Math.random() * servers.length)\<close> it draws (for the connectors and for
  the rippled servers), the bytes of \<open>crypto.randomBytes(32)\<close>, and what the user
  answers when asked for a field (inquirer asks again until the field's validator
  accepts; the answer here is the accepted one).
\<close>

record configure_input =
  testnet :: bool
  advanced :: bool
  random_parent :: nat
  random_rippled :: nat
  randomBytes :: string
  answer :: "string \<Rightarrow> string"

text \<open>
  \<open>servers[i]\<close> for the index drawn: \<open>undefined\<close> (\<open>None\<close>) when the index is not
  one of the list, as with the empty list.
\<close>

definition random_element :: "string list \<Rightarrow> nat \<Rightarrow> string option" where
  "random_element servers i = (if i < length servers then Some (servers ! i) else None)"

text \<open>A field descriptor: its name, its message and its default (\<open>None\<close>: undefined).\<close>

record field =
  field_name :: string
  field_message :: string
  field_default :: "string option"

definition fields :: "'n runtime \<Rightarrow> configure_input \<Rightarrow> field list" where
  "fields rt inp =
     (let servers = connectorList rt (testnet inp);
          defaultParent = random_element servers (random_parent inp);
          rippledServers = rippledList rt (testnet inp);
          defaultRippled = random_element rippledServers (random_rippled inp)
      in [\<lparr>field_name = ''parent'',
            field_message = ''BTP host of parent connector:'',
            field_default = defaultParent\<rparr>,
          \<lparr>field_name = ''name'',
            field_message = ''Name to assign to this channel:'',
            field_default = Some (base64url rt (randomBytes inp))\<rparr>,
          \<lparr>field_name = ''secret'',
            field_message = ''XRP secret'' @ (if testnet inp then '' (optional):'' else '':''),
            field_default = (if testnet inp then Some '''' else None)\<rparr>,
          \<lparr>field_name = ''xrpServer'',
            field_message = ''Rippled server:'',
            field_default = defaultRippled\<rparr>])"

text \<open>
  The object \<open>res\<close> is a map from field names to strings.
  \<^verbatim>\<open>
  for (const field of fields) {
    if (advanced || field.default === undefined) {
      res[field.name] = (await inquirer.prompt(field))[field.name]
    } else {
      res[field.name] = field.default
    }
  }
  \<close>
\<close>

fun prompt_fields ::
  "configure_input \<Rightarrow> field list \<Rightarrow> (string \<rightharpoonup> string) \<Rightarrow> world \<Rightarrow> (string \<rightharpoonup> string) \<times> world" where
  "prompt_fields inp [] res w = (res, w)"
| "prompt_fields inp (f # fs) res w =
     (case field_default f of
        None \<Rightarrow>
          prompt_fields inp fs (res(field_name f \<mapsto> answer inp (field_name f)))
            (emit (Prompt (field_name f)) w)
      | Some d \<Rightarrow>
          if advanced inp then
            prompt_fields inp fs (res(field_name f \<mapsto> answer inp (field_name f)))
              (emit (Prompt (field_name f)) w)
          else prompt_fields inp fs (res(field_name f \<mapsto> d)) w)"

text \<open>
  \<open>!x\<close> of a string that may be undefined, and the string a property reads as (an
  unset property would read \<open>undefined\<close>; the loop above sets the four fields and both
  branches of \<open>configure\<close> set the address before they are read).
\<close>

definition falsy :: "string option \<Rightarrow> bool" where
  "falsy x = (x = None \<or> x = Some '''')"

definition field_value :: "(string \<rightharpoonup> string) \<Rightarrow> string \<Rightarrow> string" where
  "field_value res k = (case res k of None \<Rightarrow> ''undefined'' | Some v \<Rightarrow> v)"

text \<open>
  The end of \<open>configure\<close>:
  \<^verbatim>\<open>
  const btpName = res.name || ''
  const btpSecret = hmac(hmac(parentBtpHmacKey, res.parent + btpName), res.secret).toString('hex')
  const btpServer = 'btp+wss://' + btpName + ':' + btpSecret + '@' + res.parent
  return {
    relation: 'parent', plugin: require.resolve('ilp-plugin-xrp-asym-client'),
    assetCode: 'XRP', assetScale: 6,
    balance: { minimum: '-Infinity', maximum: '20000', settleThreshold: '5000', settleTo: '10000' },
    sendRoutes: false, receiveRoutes: false,
    options: { server: btpServer, secret: res.secret, address: res.address, xrpServer: res.xrpServer }
  }
  \<close>
\<close>

definition btpName_of :: "(string \<rightharpoonup> string) \<Rightarrow> string" where
  "btpName_of res = (if falsy (res ''name'') then '''' else field_value res ''name'')"

definition configure_return :: "'n runtime \<Rightarrow> (string \<rightharpoonup> string) \<Rightarrow> uplink_config" where
  "configure_return rt res =
     (let btpName = btpName_of res;
          btpSecret = toString_hex
                        (hmac rt (hmac rt parentBtpHmacKey (field_value res ''parent'' @ btpName))
                                 (field_value res ''secret''));
          btpServer = ''btp+wss://'' @ btpName @ '':'' @ btpSecret @ ''@'' @ field_value res ''parent''
      in \<lparr>relation = ''parent'',
          plugin = plugin_path rt,
          assetCode = ''XRP'',
          assetScale = 6,
          balance_cfg = \<lparr>minimum = ''-Infinity'', maximum = ''20000'',
                         settleThreshold = ''5000'', settleTo = ''10000''\<rparr>,
          sendRoutes = False,
          receiveRoutes = False,
          options = \<lparr>server = btpServer,
                     secret = field_value res ''secret'',
                     address = field_value res ''address'',
                     xrpServer = field_value res ''xrpServer''\<rparr>\<rparr>)"

text \<open>
  How a call of \<open>configure\<close> ends: it returns a configuration, the process exits, or
  the promise rejects.
\<close>

datatype outcome = Returned uplink_config | Exited nat | Rejected js_error

text \<open>
  \<^verbatim>\<open>
  async function configure ({ testnet, advanced }) {
    ... fields, the loop ...
    if (testnet && !res.secret) {
      console.log('acquiring testnet account...')
      const resp = await fetch('https://faucet.altnet.rippletest.net/accounts', { method: 'POST' })
      const json = await resp.json()
      res.address = json.account.address
      res.secret = json.account.secret
      console.log('got testnet address "' + res.address + '"')
      console.log('waiting for testnet API to fund address...')
      await new Promise(resolve => setTimeout(resolve, 10000))
    } else {
      if (!res.address) {
        res.address = deriveAddress(deriveKeypair(res.secret).publicKey)
      }
      // Ensure that the given account exists and has enough XRP to create a channel.
      await validateAddress(res.xrpServer, res.address).catch((err) => {
        console.error('Error configuring uplink: ' + err.message)
        process.exit(1)
      })
    }
    ... the end ...
  }
  \<close>
  The faucet's answer stands for the request and the parsing of its body together.
\<close>

definition configure :: "'n runtime \<Rightarrow> 'n services \<Rightarrow> configure_input \<Rightarrow> world \<Rightarrow> outcome \<times> world" where
  "configure rt sv inp w =
     (let (res, w1) = prompt_fields inp (fields rt inp) Map.empty w
      in if testnet inp \<and> falsy (res ''secret'') then
           let w2 = console_log ''acquiring testnet account...'' w1
           in (case request (faucet_reply sv)
                       (HttpPost ''https://faucet.altnet.rippletest.net/accounts'') w2 of
                 (Inl err, w3) \<Rightarrow> (Rejected err, w3)
               | (Inr account, w3) \<Rightarrow>
                   let res1 = res(''address'' \<mapsto> account_address account);
                       res2 = res1(''secret'' \<mapsto> account_secret account);
                       w4 = console_log (''got testnet address '' @ [dquote] @
                                         field_value res2 ''address'' @ [dquote]) w3;
                       w5 = console_log ''waiting for testnet API to fund address...'' w4;
                       w6 = emit (SetTimeout 10000) w5
                   in (Returned (configure_return rt res2), w6))
         else
           let res1 = (if falsy (res ''address'')
                       then res(''address'' \<mapsto>
                              deriveAddress rt (deriveKeypair_publicKey rt (field_value res ''secret'')))
                       else res)
           in (case validateAddress rt sv (field_value res1 ''xrpServer'')
                       (field_value res1 ''address'') w1 of
                 (Inl err, w2) \<Rightarrow>
                   (Exited 1,
                    emit (ProcessExit 1)
                      (console_error (''Error configuring uplink: '' @ message err) w2))
               | (Inr _, w2) \<Rightarrow> (Returned (configure_return rt res1), w2)))"

subsection \<open>The credential, as the specification words it\<close>

text \<open>
  The reference the derived credential is compared with: the secret is the hexadecimal
  form of HMAC-SHA256 keyed with HMAC-SHA256 (key "parent_btp_uri", message the parent
  host followed by the channel name) over the seed, and the URI is the scheme, the
  channel name, a colon, the secret, an at sign and the parent host.
\<close>

definition deriveSecret_spec :: "'n runtime \<Rightarrow> string \<Rightarrow> string \<Rightarrow> string \<Rightarrow> string" where
  "deriveSecret_spec rt parentHost channelName seed =
     toString_hex
       (hmac_digest rt ''sha256''
          (hmac_digest rt ''sha256'' ''parent_btp_uri'' (parentHost @ channelName))
          seed)"

definition btp_uri_spec :: "'n runtime \<Rightarrow> string \<Rightarrow> string \<Rightarrow> string \<Rightarrow> string" where
  "btp_uri_spec rt parentHost channelName seed =
     ''btp+wss://'' @ channelName @ '':'' @ deriveSecret_spec rt parentHost channelName seed @
     ''@'' @ parentHost"


subsection \<open>Counting requests\<close>

text \<open>The subscribe requests among the events, and the requests sent to rippled.\<close>

fun is_subscribe :: "event \<Rightarrow> bool" where
  "is_subscribe (Subscribe accounts) = True"
| "is_subscribe ev = False"

definition subscribes :: "world \<Rightarrow> nat" where
  "subscribes w = length (filter is_subscribe (trace w))"

fun is_ledger_request :: "event \<Rightarrow> bool" where
  "is_ledger_request (Connect srv) = True"
| "is_ledger_request (Subscribe accounts) = True"
| "is_ledger_request (AccountChannels account) = True"
| "is_ledger_request (GetAccountInfo account) = True"
| "is_ledger_request GetServerInfo = True"
| "is_ledger_request (Submit method channelId close) = True"
| "is_ledger_request ev = False"

text \<open>
  \<open>n\<close> invocations of \<open>_submitter\<close> on one instance, one after the other, whatever
  each of them returns.
\<close>

fun submitter_times :: "nat \<Rightarrow> 'n services \<Rightarrow> XrpUplink \<Rightarrow> world \<Rightarrow> XrpUplink \<times> world" where
  "submitter_times 0 sv this w = (this, w)"
| "submitter_times (Suc n) sv this w =
     (case priv_submitter sv this w of (res, this1, w1) \<Rightarrow> submitter_times n sv this1 w1)"

subsection \<open>A cleanup batch, event by event\<close>

text \<open>
  The reference the loop of \<open>cleanupChannels\<close> is compared with. For each selected
  channel in turn, whatever happened to the channels before it: the line that names
  it, the submission that closes it, and, when that submission is refused, one warning
  line with the channel and the error's message. \<open>t\<close> is the trace so far.
\<close>

fun closing_events :: "'n services \<Rightarrow> channel list \<Rightarrow> event list \<Rightarrow> event list" where
  "closing_events sv [] t = []"
| "closing_events sv (c # cs) t =
     (let attempt = [ConsoleLog (''Closing channel '' @ channel_id c),
                     Submit ''preparePaymentChannelClaim'' (channel_id c) True];
          report = (case submit_reply sv (t @ attempt) of
                      Inl err \<Rightarrow> [ConsoleError (''Warning for channel '' @ channel_id c @
                                                '': '' @ message err)]
                    | Inr _ \<Rightarrow> [])
      in attempt @ report @ closing_events sv cs (t @ attempt @ report))"

fun is_submit :: "event \<Rightarrow> bool" where
  "is_submit (Submit method channelId close) = True"
| "is_submit ev = False"

subsection \<open>The paths of configuration\<close>

text \<open>
  What the loop over the fields leaves: the object \<open>res\<close> and the world after the
  prompts. The faucet path is the branch \<open>testnet && !res.secret\<close>; on the other
  branch the account validated is \<open>res.address\<close>, derived from the secret when unset.
\<close>

definition gathered :: "'n runtime \<Rightarrow> configure_input \<Rightarrow> world \<Rightarrow> (string \<rightharpoonup> string) \<times> world" where
  "gathered rt inp w = prompt_fields inp (fields rt inp) Map.empty w"

definition faucet_path :: "'n runtime \<Rightarrow> configure_input \<Rightarrow> world \<Rightarrow> bool" where
  "faucet_path rt inp w = (testnet inp \<and> falsy (fst (gathered rt inp w) ''secret''))"

definition with_address :: "'n runtime \<Rightarrow> (string \<rightharpoonup> string) \<Rightarrow> (string \<rightharpoonup> string)" where
  "with_address rt res =
     (if falsy (res ''address'')
      then res(''address'' \<mapsto>
             deriveAddress rt (deriveKeypair_publicKey rt (field_value res ''secret'')))
      else res)"

subsection \<open>Grouping in threes, as the specification words it\<close>

text \<open>
  The reference the separator function is compared with: a string of at most three
  characters is left alone; a longer one is its last three characters, a comma before
  them, and before that the grouping of the rest.
\<close>

function thousands_spec :: "string \<Rightarrow> string" where
  "thousands_spec a =
     (if length a \<le> 3 then a
      else thousands_spec (take (length a - 3) a) @ CHR '','' # drop (length a - 3) a)"
  by pat_completeness auto
termination
  by (relation "measure length") auto

declare thousands_spec.simps [simp del]

text \<open>A digit string: every character is one of 0 to 9.\<close>

definition digit_string :: "string \<Rightarrow> bool" where
  "digit_string a = list_all (\<lambda>c. c \<in> set ''0123456789'') a"

text \<open>
  The separator function seen from the rest of the string: the callback's test
  \<open>(a.length - i) % 3 === 1 && i < a.length - 1\<close> depends only on how many characters
  are left from position \<open>i\<close> on.
\<close>

fun comma_tail :: "string \<Rightarrow> string" where
  "comma_tail [] = []"
| "comma_tail (e # es) =
     (if length (e # es) mod 3 = 1 \<and> es \<noteq> [] then [e, CHR '',''] else [e]) @ comma_tail es"

subsection \<open>Example values\<close>

text \<open>
  A runtime for the concrete runs below: numbers are whole, written in decimal and
  small enough for doubles to be exact on them, colours leave the text alone, every
  duration reads "a while", a table is its cells one after the other, the clock
  stands at one second past the start of 2020, the keyed hash is the key followed by
  the data, there is one connector and one rippled server.
\<close>

definition example_runtime :: "int runtime" where
  "example_runtime =
     \<lparr>js_plus = (\<lambda>a b. a + b),
      js_minus = (\<lambda>a b. a - b),
      js_times = (\<lambda>a b. a * b),
      js_less = (\<lambda>a b. a < b),
      js_one = 1,
      Number = (\<lambda>s. int (foldl (\<lambda>n c. 10 * n + (of_char c - 48)) 0 s)),
      String_of_number = (\<lambda>q. String_nat (nat q)),
      chalk_blue = (\<lambda>s. s),
      chalk_yellow = (\<lambda>s. s),
      chalk_green = (\<lambda>s. s),
      humanize = (\<lambda>ms. ''a while''),
      table = concat \<circ> concat,
      Date_now = (\<lambda>k. 1577836801000),
      hmac_digest = (\<lambda>algorithm key data. key @ data),
      to_base64 = (\<lambda>buf. buf),
      deriveKeypair_publicKey = (\<lambda>s. s),
      deriveAddress = (\<lambda>s. ''r'' @ s),
      OUTGOING_CHANNEL_DEFAULT_AMOUNT = 1000000,
      plugin_path = ''ilp-plugin-xrp-asym-client'',
      connectorList = (\<lambda>t. [''host.example'']),
      rippledList = (\<lambda>t. [''wss://s1''])\<rparr>"

definition example_world :: world where
  "example_world = \<lparr>trace = [], ticks = 0\<rparr>"

text \<open>Three channels of one account.\<close>

definition channel_A :: channel where
  "channel_A = \<lparr>channel_id = ''AAAAAAAAAAAA'', destination_account = ''rDest'',
                 amount = ''1000000'', balance = ''250000'', expiration = None\<rparr>"

definition channel_B :: channel where
  "channel_B = \<lparr>channel_id = ''BBBBBBBBBBBB'', destination_account = ''rDest'',
                 amount = ''1000000'', balance = ''0'', expiration = Some 630720000\<rparr>"

definition channel_C :: channel where
  "channel_C = \<lparr>channel_id = ''CCCCCCCCCCCC'', destination_account = ''rDest'',
                 amount = ''12345678'', balance = ''1234'', expiration = Some 700000000\<rparr>"

text \<open>
  Services that answer every request, but refuse to close the second channel. The
  account owns three objects and holds exactly the minimum, 1000041.
\<close>

definition example_services :: "int services" where
  "example_services =
     \<lparr>connect_reply = (\<lambda>t. Inr ()),
      subscribe_reply = (\<lambda>t. Inr ()),
      account_channels_reply = (\<lambda>t. Inr [channel_A, channel_B, channel_C]),
      getAccountInfo_reply = (\<lambda>t. Inr \<lparr>xrpBalance = ''1000041'', ownerCount = 3\<rparr>),
      getServerInfo_reply = (\<lambda>t. Inr \<lparr>reserveBaseXRP = ''20'', reserveIncrementXRP = ''5''\<rparr>),
      submit_reply = (\<lambda>t. if last t = Submit ''preparePaymentChannelClaim'' ''BBBBBBBBBBBB'' True
                            then Inl (Error ''tecNO_PERMISSION'') else Inr ()),
      faucet_reply = (\<lambda>t. Inr \<lparr>account_address = ''rFaucet'', account_secret = ''sFaucet''\<rparr>)\<rparr>"

text \<open>The same services with an account one XRP short of the minimum.\<close>

definition poor_services :: "int services" where
  "poor_services =
     example_services\<lparr>getAccountInfo_reply :=
       (\<lambda>t. Inr \<lparr>xrpBalance = ''1000040'', ownerCount = 3\<rparr>)\<rparr>"

text \<open>The same services with no such account, and with a rippled error of another kind.\<close>

definition missing_services :: "int services" where
  "missing_services =
     example_services\<lparr>getAccountInfo_reply :=
       (\<lambda>t. Inl \<lparr>error_name = ''RippledError'', message = ''actNotFound''\<rparr>)\<rparr>"

definition failing_services :: "int services" where
  "failing_services =
     example_services\<lparr>getAccountInfo_reply :=
       (\<lambda>t. Inl \<lparr>error_name = ''RippledError'', message = ''tooBusy''\<rparr>)\<rparr>"

text \<open>The same services with a rippled that refuses the subscription.\<close>

definition unsubscribable_services :: "int services" where
  "unsubscribable_services =
     example_services\<lparr>subscribe_reply := (\<lambda>t. Inl (Error ''noPermission''))\<rparr>"






text \<open>A configuration and two calls of \<open>configure\<close>.\<close>

definition example_config :: uplink_config where
  "example_config =
     configure_return example_runtime
       [''parent'' \<mapsto> ''host.example'', ''name'' \<mapsto> ''chan'', ''secret'' \<mapsto> ''sSeed'',
        ''address'' \<mapsto> ''rAcct'', ''xrpServer'' \<mapsto> ''wss://s1'']"

definition testnet_input :: configure_input where
  "testnet_input =
     \<lparr>testnet = True, advanced = False, random_parent = 0, random_rippled = 0,
      randomBytes = ''ab+/='', answer = (\<lambda>k. [])\<rparr>"

definition live_input :: configure_input where
  "live_input =
     \<lparr>testnet = False, advanced = False, random_parent = 0, random_rippled = 0,
      randomBytes = ''ab+/='', answer = (\<lambda>k. ''sSeed'')\<rparr>"

section \<open>Properties\<close>

subsection \<open>Thousands separators\<close>

lemma comma_enumerate_tail:
  "n = i + length es \<Longrightarrow>
   concat (map (\<lambda>(i, e). if (n - i) mod 3 = 1 \<and> i < n - 1 then [e, CHR '',''] else [e])
               (enumerate i es)) = comma_tail es"
proof (induction es arbitrary: i)
  case Nil
  then show ?case by simp
next
  case (Cons e es)
  have "(i < i + length es) = (es \<noteq> [])" by simp
  with Cons show ?case by simp
qed

lemma comma_eq_tail: "comma a = comma_tail a"
  unfolding comma_def by (rule comma_enumerate_tail) simp

lemma comma_tail_short: "length b \<le> 3 \<Longrightarrow> comma_tail b = b"
proof -
  assume "length b \<le> 3"
  then consider "b = []" | x where "b = [x]" | x y where "b = [x, y]"
    | x y z where "b = [x, y, z]"
    by (cases b; cases "tl b"; cases "tl (tl b)"; cases "tl (tl (tl b))") auto
  then show ?thesis by cases auto
qed

lemma comma_tail_append3:
  "length b = 3 \<Longrightarrow> a \<noteq> [] \<Longrightarrow> comma_tail (a @ b) = comma_tail a @ CHR '','' # b"
proof (induction a)
  case Nil
  then show ?case by simp
next
  case (Cons e es)
  show ?case
  proof (cases "es = []")
    case True
    with Cons.prems show ?thesis by (auto simp add: comma_tail_short)
  next
    case False
    have "(Suc (length es + 3)) mod 3 = Suc (length es) mod 3" by presburger
    with False Cons show ?thesis by simp
  qed
qed

lemma comma_eq_spec: "comma a = thousands_spec a"
proof (induction a rule: thousands_spec.induct)
  case (1 a)
  show ?case
  proof (cases "length a \<le> 3")
    case True
    then show ?thesis
      by (simp add: comma_eq_tail comma_tail_short thousands_spec.simps [of a])
  next
    case False
    let ?h = "take (length a - 3) a" and ?t = "drop (length a - 3) a"
    from False have "length ?t = 3" "?h \<noteq> []" by auto
    then have "comma_tail (?h @ ?t) = comma_tail ?h @ CHR '','' # ?t"
      by (rule comma_tail_append3)
    moreover have "comma ?h = thousands_spec ?h" using False by (rule "1.IH")
    ultimately show ?thesis using False
      by (subst thousands_spec.simps) (simp add: comma_eq_tail)
  qed
qed

lemma suc_mod3: "(Suc k mod 3 = 1) = (k mod 3 = 0)"
  by presburger

lemma comma_test_eq:
  assumes "i < (n::nat)"
  shows "((n - i) mod 3 = 1 \<and> i < n - 1) = (0 < n - 1 - i \<and> (n - 1 - i) mod 3 = 0)"
proof -
  from assms have "n - i = Suc (n - 1 - i)" by simp
  moreover from assms have "(i < n - 1) = (0 < n - 1 - i)" by auto
  ultimately show ?thesis by (simp only: suc_mod3) blast
qed

lemma comma_positions:
  "comma a = concat (map (\<lambda>i. if 0 < length a - 1 - i \<and> (length a - 1 - i) mod 3 = 0
                                then [a ! i, CHR '',''] else [a ! i]) [0..<length a])"
proof -
  let ?f = "\<lambda>(i, e). if (length a - i) mod 3 = 1 \<and> i < length a - 1
                        then [e, CHR '',''] else [e]"
  let ?g = "\<lambda>i. if 0 < length a - 1 - i \<and> (length a - 1 - i) mod 3 = 0
                   then [a ! i, CHR '',''] else [a ! i]"
  have "map ?f (enumerate 0 a) = map ?g [0..<length a]"
  proof (rule nth_equalityI)
    show "length (map ?f (enumerate 0 a)) = length (map ?g [0..<length a])" by simp
  next
    fix i
    assume "i < length (map ?f (enumerate 0 a))"
    then have i: "i < length a" by simp
    then have "map ?f (enumerate 0 a) ! i = ?f (i, a ! i)"
      by (simp add: nth_enumerate_eq)
    also have "\<dots> = ?g i"
      using comma_test_eq [OF i] by (simp only: prod.case)
    also have "\<dots> = map ?g [0..<length a] ! i"
      using i by simp
    finally show "map ?f (enumerate 0 a) ! i = map ?g [0..<length a] ! i" .
  qed
  then show ?thesis by (simp only: comma_def)
qed

lemma filter_comma_tail:
  "filter (\<lambda>c. c \<noteq> CHR '','') (comma_tail a) = filter (\<lambda>c. c \<noteq> CHR '','') a"
  by (induction a) auto

lemma hd_comma_tail: "a \<noteq> [] \<Longrightarrow> hd (comma_tail a) = hd a"
  by (cases a) auto

lemma comma_tail_Nil: "(comma_tail a = []) = (a = [])"
  by (cases a) auto

lemma last_comma_tail: "a \<noteq> [] \<Longrightarrow> last (comma_tail a) = last a"
  by (induction a) (auto simp: comma_tail_Nil)

lemma digit_string_no_comma: "digit_string a \<Longrightarrow> CHR '','' \<notin> set a"
proof
  assume "digit_string a" and "CHR '','' \<in> set a"
  then have "CHR '','' \<in> set ''0123456789''"
    unfolding digit_string_def list_all_iff by (rule bspec)
  then show False by simp
qed

lemma filter_id_no_comma: "CHR '','' \<notin> set a \<Longrightarrow> filter (\<lambda>c. c \<noteq> CHR '','') a = a"
  by (induction a) auto

text \<open>
  Claim C9. The amount and balance columns of a channel row are the separator function
  applied to the channel's amount and balance. On every string the function equals the
  grouping in threes from the right; it puts a comma after exactly the characters that
  are followed by a positive multiple of three characters; it leaves a string of at
  most three characters unchanged; and on a non-empty digit string the result neither
  starts nor ends with a comma, and deleting its commas gives the digits back.
\<close>

theorem comma_thousands_separators:
  "comma a = thousands_spec a
   \<and> comma a = concat (map (\<lambda>i. if 0 < length a - 1 - i \<and> (length a - 1 - i) mod 3 = 0
                                  then [a ! i, CHR '',''] else [a ! i]) [0..<length a])
   \<and> (length a \<le> 3 \<longrightarrow> comma a = a)
   \<and> (a \<noteq> [] \<and> digit_string a \<longrightarrow>
        hd (comma a) \<noteq> CHR '','' \<and> last (comma a) \<noteq> CHR '',''
        \<and> filter (\<lambda>c. c \<noteq> CHR '','') (comma a) = a)
   \<and> fst (formatChannelToRow rt c i w) ! 3 = comma (amount c)
   \<and> fst (formatChannelToRow rt c i w) ! 4 = comma (balance c)"
proof -
  have short: "length a \<le> 3 \<longrightarrow> comma a = a"
    by (simp add: comma_eq_tail comma_tail_short)
  have ends: "a \<noteq> [] \<and> digit_string a \<longrightarrow>
        hd (comma a) \<noteq> CHR '','' \<and> last (comma a) \<noteq> CHR '',''
        \<and> filter (\<lambda>c. c \<noteq> CHR '','') (comma a) = a"
  proof
    assume h: "a \<noteq> [] \<and> digit_string a"
    then have nc: "CHR '','' \<notin> set a" by (simp add: digit_string_no_comma)
    from h have "hd a \<in> set a" "last a \<in> set a" by simp_all
    with nc have "hd a \<noteq> CHR '',''" "last a \<noteq> CHR '',''" by auto
    with h nc show "hd (comma a) \<noteq> CHR '','' \<and> last (comma a) \<noteq> CHR '',''
        \<and> filter (\<lambda>c. c \<noteq> CHR '','') (comma a) = a"
      by (simp add: comma_eq_tail hd_comma_tail last_comma_tail filter_comma_tail
          filter_id_no_comma)
  qed
  have row: "fst (formatChannelToRow rt c i w) ! 3 = comma (amount c)
     \<and> fst (formatChannelToRow rt c i w) ! 4 = comma (balance c)"
    by (simp add: formatChannelToRow_def split: prod.split)
  show ?thesis by (intro conjI comma_eq_spec comma_positions short ends row [THEN conjunct1] row [THEN conjunct2])
qed

theorem comma_thousands_separators_witness:
  "comma ''1234567'' = ''1,234,567''
   \<and> thousands_spec ''1234567'' = ''1,234,567''
   \<and> length ''999'' \<le> 3
   \<and> comma ''999'' = ''999''
   \<and> ''1234567'' \<noteq> [] \<and> digit_string ''1234567''
   \<and> hd (comma ''1234567'') \<noteq> CHR '','' \<and> last (comma ''1234567'') \<noteq> CHR '',''
   \<and> filter (\<lambda>c. c \<noteq> CHR '','') (comma ''1234567'') = ''1234567''"
proof -
  have c: "comma ''1234567'' = ''1,234,567''" by (simp add: comma_def)
  have d: "digit_string ''1234567''" by (simp add: digit_string_def)
  have ne: "''1234567'' \<noteq> []" by simp
  have s: "length ''999'' \<le> 3" by simp
  from comma_thousands_separators [of "''1234567''", THEN conjunct1] c
  have t: "thousands_spec ''1234567'' = ''1,234,567''" by simp
  from comma_thousands_separators [of "''999''", THEN conjunct2, THEN conjunct2, THEN conjunct1] s
  have n: "comma ''999'' = ''999''" by (rule mp)
  have e: "hd (comma ''1234567'') \<noteq> CHR '','' \<and> last (comma ''1234567'') \<noteq> CHR '',''
        \<and> filter (\<lambda>c. c \<noteq> CHR '','') (comma ''1234567'') = ''1234567''"
    by (rule mp [OF comma_thousands_separators [of "''1234567''", THEN conjunct2,
            THEN conjunct2, THEN conjunct2, THEN conjunct1] conjI [OF ne d]])
  show ?thesis
    by (intro conjI c t s n ne d e [THEN conjunct1] e [THEN conjunct2, THEN conjunct1]
        e [THEN conjunct2, THEN conjunct2])
qed

subsection \<open>Expiration labels\<close>

text \<open>
  Claim C8. An absent or zero expiration renders as the empty label and reads no clock.
  Otherwise the expiration is taken to wall-clock milliseconds as
  \<open>(expiration + 946684800) * 1000\<close> (946684800 is 0x386D4380); a time at or before
  the clock's reading gives the text "ready to close" (in chalk's blue), and a strictly
  later time gives "in " followed by moment's humanized duration from the clock's next
  reading to that time (in chalk's yellow).
\<close>

theorem formatChannelExpiration_label:
  "(exp' = None \<or> exp' = Some 0 \<longrightarrow> formatChannelExpiration rt exp' w = ('''', w))
   \<and> (\<forall>e. exp' = Some e \<and> e \<noteq> 0 \<and> (e + 946684800) * 1000 \<le> Date_now rt (ticks w) \<longrightarrow>
          fst (formatChannelExpiration rt exp' w) = chalk_blue rt ''ready to close'')
   \<and> (\<forall>e. exp' = Some e \<and> e \<noteq> 0 \<and> Date_now rt (ticks w) < (e + 946684800) * 1000 \<longrightarrow>
          fst (formatChannelExpiration rt exp' w) =
            chalk_yellow rt (''in '' @
              humanize rt ((e + 946684800) * 1000 - Date_now rt (Suc (ticks w)))))"
  by (auto simp: formatChannelExpiration_def now_def Let_def)

theorem formatChannelExpiration_label_witness:
  "fst (formatChannelExpiration example_runtime None example_world) = ''''
   \<and> fst (formatChannelExpiration example_runtime (Some 0) example_world) = ''''
   \<and> (630720000 + 946684800) * 1000 \<le> Date_now example_runtime (ticks example_world)
   \<and> fst (formatChannelExpiration example_runtime (Some 630720000) example_world)
       = ''ready to close''
   \<and> Date_now example_runtime (ticks example_world) < (700000000 + 946684800) * 1000
   \<and> fst (formatChannelExpiration example_runtime (Some 700000000) example_world)
       = ''in a while''"
proof -
  have a: "(630720000 + 946684800) * 1000 \<le> Date_now example_runtime (ticks example_world)"
    by (simp add: example_runtime_def example_world_def)
  have b: "Date_now example_runtime (ticks example_world) < (700000000 + 946684800) * 1000"
    by (simp add: example_runtime_def example_world_def)
  from formatChannelExpiration_label [of None example_runtime example_world]
  have 1: "fst (formatChannelExpiration example_runtime None example_world) = ''''" by simp
  from formatChannelExpiration_label [of "Some 0" example_runtime example_world]
  have 2: "fst (formatChannelExpiration example_runtime (Some 0) example_world) = ''''" by simp
  from formatChannelExpiration_label [of "Some 630720000" example_runtime example_world] a
  have 3: "fst (formatChannelExpiration example_runtime (Some 630720000) example_world)
       = ''ready to close''" by (simp add: example_runtime_def)
  from formatChannelExpiration_label [of "Some 700000000" example_runtime example_world] b
  have 4: "fst (formatChannelExpiration example_runtime (Some 700000000) example_world)
       = ''in a while''" by (simp add: example_runtime_def)
  show ?thesis by (intro conjI 1 2 a 3 b 4)
qed

subsection \<open>Account validation\<close>

lemma trace_emit: "trace (emit ev w) = trace w @ [ev]"
  by (simp add: emit_def)

lemma request_eq: "request reply ev w = (reply (trace w @ [ev]), emit ev w)"
  by (simp add: request_def Let_def trace_emit)


lemma example_numbers:
  "Number example_runtime ''20'' = 20"
  "Number example_runtime ''5'' = 5"
  "Number example_runtime ''1000041'' = 1000041"
  "Number example_runtime ''1000040'' = 1000040"
  "String_of_number example_runtime 1000041 = ''1000041''"
  "OUTGOING_CHANNEL_DEFAULT_AMOUNT example_runtime = 1000000"
  "js_plus example_runtime a b = a + b"
  "js_times example_runtime a b = a * b"
  "js_less example_runtime a b = (a < b)"
  "js_one example_runtime = 1"
  by (simp_all add: example_runtime_def String_nat.simps digit_char_def)




text \<open>
  Claim C6. When the account lookup fails with rippled's \<open>actNotFound\<close>, validation
  fails with a new error whose message names the address and the server; that error is
  not the one rippled gave and its message is not \<open>actNotFound\<close>. Any other error of
  the lookup is the error validation fails with, unchanged.
\<close>

theorem validateAddress_account_not_found:
  assumes "connect_reply sv (trace w @ [Connect srv]) = Inr ()"
    and "getAccountInfo_reply sv (trace w @ [Connect srv, GetAccountInfo addr]) = Inl err"
  shows "(message err = ''actNotFound'' \<longrightarrow>
            fst (validateAddress rt sv srv addr w)
              = Inl (Error (''Address '' @ [dquote] @ addr @ [dquote] @ '' does not exist on '' @ srv))
            \<and> fst (validateAddress rt sv srv addr w) \<noteq> Inl err
            \<and> (\<forall>e. fst (validateAddress rt sv srv addr w) = Inl e \<longrightarrow>
                   message e \<noteq> ''actNotFound'' \<and> error_name e = ''Error''))
       \<and> (message err \<noteq> ''actNotFound'' \<longrightarrow> fst (validateAddress rt sv srv addr w) = Inl err)"
proof -
  have ne: "Error (''Address '' @ [dquote] @ addr @ [dquote] @ '' does not exist on '' @ srv) \<noteq> err"
    if "message err = ''actNotFound''"
  proof
    assume "Error (''Address '' @ [dquote] @ addr @ [dquote] @ '' does not exist on '' @ srv) = err"
    then have "message err = ''Address '' @ [dquote] @ addr @ [dquote] @ '' does not exist on '' @ srv"
      by (auto simp: Error_def)
    with that show False by simp
  qed
  show ?thesis
    using assms ne
    by (simp add: validateAddress_def request_eq trace_emit Error_def)
qed

theorem validateAddress_account_not_found_witness:
  "fst (validateAddress example_runtime missing_services ''wss://s1'' ''rAcct'' example_world)
     = Inl (Error (''Address '' @ [dquote] @ ''rAcct'' @ [dquote] @ '' does not exist on wss://s1''))
   \<and> fst (validateAddress example_runtime failing_services ''wss://s1'' ''rAcct'' example_world)
     = Inl \<lparr>error_name = ''RippledError'', message = ''tooBusy''\<rparr>"
proof -
  have missing:
    "connect_reply missing_services (trace example_world @ [Connect ''wss://s1'']) = Inr ()"
    "getAccountInfo_reply missing_services
       (trace example_world @ [Connect ''wss://s1'', GetAccountInfo ''rAcct''])
     = Inl \<lparr>error_name = ''RippledError'', message = ''actNotFound''\<rparr>"
    by (simp_all add: missing_services_def example_services_def)
  have failing:
    "connect_reply failing_services (trace example_world @ [Connect ''wss://s1'']) = Inr ()"
    "getAccountInfo_reply failing_services
       (trace example_world @ [Connect ''wss://s1'', GetAccountInfo ''rAcct''])
     = Inl \<lparr>error_name = ''RippledError'', message = ''tooBusy''\<rparr>"
    by (simp_all add: failing_services_def example_services_def)
  from validateAddress_account_not_found [OF missing, of example_runtime]
  have 1: "fst (validateAddress example_runtime missing_services ''wss://s1'' ''rAcct'' example_world)
     = Inl (Error (''Address '' @ [dquote] @ ''rAcct'' @ [dquote] @ '' does not exist on wss://s1''))"
    by simp
  from validateAddress_account_not_found [OF failing, of example_runtime]
  have 2: "fst (validateAddress example_runtime failing_services ''wss://s1'' ''rAcct'' example_world)
     = Inl \<lparr>error_name = ''RippledError'', message = ''tooBusy''\<rparr>"
    by simp
  show ?thesis by (intro conjI 1 2)
qed

subsection \<open>Cleaning up channels\<close>

lemma closeChannels_trace:
  "closeChannels sv s (map Some cs) w
     = (Inr (), w\<lparr>trace := trace w @ closing_events sv cs (trace w)\<rparr>)"
proof (induction cs arbitrary: w)
  case Nil
  then show ?case by simp
next
  case (Cons c cs)
  show ?case
  proof (cases "submit_reply sv (trace w @ [ConsoleLog (''Closing channel '' @ channel_id c),
                     Submit ''preparePaymentChannelClaim'' (channel_id c) True])")
    case (Inl err)
    then show ?thesis
      by (simp add: Cons.IH submit_def request_eq console_log_def console_error_def
          trace_emit emit_def Let_def)
  next
    case (Inr u)
    then show ?thesis
      by (simp add: Cons.IH submit_def request_eq console_log_def console_error_def
          trace_emit emit_def Let_def)
  qed
qed

lemma submits_closing_events:
  "filter is_submit (closing_events sv cs t)
     = map (\<lambda>c. Submit ''preparePaymentChannelClaim'' (channel_id c) True) cs"
  by (induction cs arbitrary: t) (auto simp: Let_def split: sum.splits)

text \<open>
  Claim C3, as amended. Over any list of selected channels the loop never fails and
  leaves exactly the events of the reference: for every channel in turn, whatever the
  earlier submissions returned, its line, its submission and, when the submission is
  refused, one warning with the channel and the error's message. So the submissions
  sent are one for each selected channel, in order. Nothing is accumulated and nothing
  follows the last channel.
\<close>

theorem closeChannels_attempts_every_channel:
  "closeChannels sv s (map Some cs) w
     = (Inr (), w\<lparr>trace := trace w @ closing_events sv cs (trace w)\<rparr>)
   \<and> filter is_submit (closing_events sv cs (trace w))
     = map (\<lambda>c. Submit ''preparePaymentChannelClaim'' (channel_id c) True) cs"
  by (simp only: closeChannels_trace submits_closing_events simp_thms)

text \<open>
  Claim C3 as the specification states it promises a final report "N of M channels
  closed". The cleanup command on three channels, the second of which cannot be closed:
  it returns nothing, the last thing it does is the third submission, and no line
  "2 of 3 channels closed" is ever written.
\<close>

theorem cleanup_prints_no_final_report:
  "fst (cleanup_handler example_runtime example_services [0, 1, 2] example_config example_world)
     = Inr ()
   \<and> drop 13 (trace (snd (snd (cleanup_handler example_runtime example_services [0, 1, 2]
                                 example_config example_world))))
     = [Subscribe [''rAcct''],
        ConsoleLog ''Closing channel AAAAAAAAAAAA'',
        Submit ''preparePaymentChannelClaim'' ''AAAAAAAAAAAA'' True,
        ConsoleLog ''Closing channel BBBBBBBBBBBB'',
        Submit ''preparePaymentChannelClaim'' ''BBBBBBBBBBBB'' True,
        ConsoleError ''Warning for channel BBBBBBBBBBBB: tecNO_PERMISSION'',
        ConsoleLog ''Closing channel CCCCCCCCCCCC'',
        Submit ''preparePaymentChannelClaim'' ''CCCCCCCCCCCC'' True]
   \<and> ConsoleLog ''2 of 3 channels closed''
       \<notin> set (trace (snd (snd (cleanup_handler example_runtime example_services [0, 1, 2]
                                 example_config example_world))))
   \<and> ConsoleError ''2 of 3 channels closed''
       \<notin> set (trace (snd (snd (cleanup_handler example_runtime example_services [0, 1, 2]
                                 example_config example_world))))"
  by (simp add: cleanup_handler_def cleanupChannels_def priv_listChannels_def
      priv_printChannels_def priv_submitter_def priv_rippleApi_def makeUplink_def
      createSubmitter_def submit_def request_eq trace_emit emit_def console_log_def
      console_error_def example_services_def example_config_def configure_return_def
      example_world_def channel_A_def channel_B_def channel_C_def Error_def Let_def
      formatChannelToRow_def formatChannelExpiration_def now_def field_value_def
      example_runtime_def btpName_of_def falsy_def)

subsection \<open>The subscription of a session\<close>

lemma subscribes_emit:
  "subscribes (emit ev w) = subscribes w + (if is_subscribe ev then 1 else 0)"
  by (simp add: subscribes_def trace_emit)

lemma rippleApi_keeps:
  assumes "priv_rippleApi sv this w = (res, this1, w1)"
  shows "subscribed this1 = subscribed this \<and> subscribes w1 = subscribes w
         \<and> filter is_subscribe (trace w1) = filter is_subscribe (trace w)
         \<and> pluginOpts this1 = pluginOpts this \<and> api this1 \<noteq> None
         \<and> (api this \<noteq> None \<longrightarrow> \<not> isl res \<and> this1 = this \<and> w1 = w)"
  using assms
  by (auto simp: priv_rippleApi_def request_eq subscribes_emit trace_emit Let_def
      split: option.splits sum.splits)

lemma rippleApi_ready:
  assumes "api this \<noteq> None
           \<or> connect_reply sv (trace w @ [Connect (xrpServer (pluginOpts this))]) = Inr ()"
  shows "\<not> isl (fst (priv_rippleApi sv this w))"
  using assms
  by (auto simp: priv_rippleApi_def request_eq Let_def split: option.splits sum.splits)

lemma submitter_first:
  assumes "\<not> subscribed this" and "priv_rippleApi sv this w = (Inr a, this1, w1)"
  shows "priv_submitter sv this w
           = (case subscribe_reply sv (trace w1 @ [Subscribe [address (pluginOpts this)]]) of
                Inl err \<Rightarrow> Inl err
              | Inr u \<Rightarrow> Inr (createSubmitter a (address (pluginOpts this))
                                (secret (pluginOpts this))),
              this1\<lparr>subscribed := True\<rparr>,
              emit (Subscribe [address (pluginOpts this)]) w1)"
  using assms rippleApi_keeps [OF assms(2)]
  by (simp add: priv_submitter_def request_eq Let_def split: sum.splits)

lemma submitter_step:
  assumes "priv_submitter sv this w = (res, this1, w1)"
  shows "api this1 \<noteq> None
         \<and> pluginOpts this1 = pluginOpts this
         \<and> (subscribed this \<longrightarrow>
               subscribed this1 \<and> subscribes w1 = subscribes w
               \<and> filter is_subscribe (trace w1) = filter is_subscribe (trace w))
         \<and> (\<not> subscribed this \<longrightarrow>
               (subscribed this1 \<and> subscribes w1 = subscribes w + 1)
               \<or> (\<not> subscribed this1 \<and> subscribes w1 = subscribes w \<and> api this = None))"
proof (cases "priv_rippleApi sv this w")
  case (fields r this0 w0)
  note k = rippleApi_keeps [OF fields]
  show ?thesis
  proof (cases r)
    case (Inl err)
    with fields assms k show ?thesis
      by (auto simp: priv_submitter_def)
  next
    case (Inr a)
    with fields assms k show ?thesis
      by (auto simp: priv_submitter_def request_eq subscribes_emit trace_emit Let_def
          split: if_splits sum.splits)
  qed
qed

lemma submitter_times_subscribed:
  "subscribed this \<Longrightarrow>
   subscribed (fst (submitter_times n sv this w))
   \<and> subscribes (snd (submitter_times n sv this w)) = subscribes w"
proof (induction n arbitrary: this w)
  case 0
  then show ?case by simp
next
  case (Suc n)
  obtain res this1 w1 where step: "priv_submitter sv this w = (res, this1, w1)"
    by (cases "priv_submitter sv this w") auto
  from submitter_step [OF step] Suc.prems
  have "subscribed this1" "subscribes w1 = subscribes w" by auto
  with Suc.IH [of this1 w1] step show ?case by simp
qed

lemma submitter_first_subscribes:
  assumes "\<not> subscribed this"
    and "api this \<noteq> None
         \<or> connect_reply sv (trace w @ [Connect (xrpServer (pluginOpts this))]) = Inr ()"
  shows "filter is_subscribe (trace (snd (snd (priv_submitter sv this w))))
           = filter is_subscribe (trace w) @ [Subscribe [address (pluginOpts this)]]
         \<and> subscribed (fst (snd (priv_submitter sv this w)))
         \<and> subscribes (snd (snd (priv_submitter sv this w))) = subscribes w + 1"
proof -
  from rippleApi_ready [OF assms(2)] obtain a this1 w1 where
    r: "priv_rippleApi sv this w = (Inr a, this1, w1)"
    by (cases "priv_rippleApi sv this w"; cases "fst (priv_rippleApi sv this w)") auto
  from rippleApi_keeps [OF r] submitter_first [OF assms(1) r] show ?thesis
    by (simp add: trace_emit subscribes_emit)
qed

lemma submitter_times_once:
  assumes "\<not> subscribed this"
    and "api this \<noteq> None
         \<or> connect_reply sv (trace w @ [Connect (xrpServer (pluginOpts this))]) = Inr ()"
  shows "subscribes (snd (submitter_times (Suc n) sv this w)) = subscribes w + 1"
proof -
  obtain res this1 w1 where step: "priv_submitter sv this w = (res, this1, w1)"
    by (cases "priv_submitter sv this w") auto
  from submitter_first_subscribes [OF assms] step
  have "subscribed this1" "subscribes w1 = subscribes w + 1" by simp_all
  with submitter_times_subscribed [of this1 n sv w1] step show ?thesis by simp
qed

lemma formatChannelExpiration_trace:
  "trace (snd (formatChannelExpiration rt e w)) = trace w"
  by (simp add: formatChannelExpiration_def now_def Let_def split: option.splits)

lemma formatChannelToRow_trace:
  "trace (snd (formatChannelToRow rt c i w)) = trace w"
  using formatChannelExpiration_trace [of rt "expiration c" w]
  by (cases "formatChannelExpiration rt (expiration c) w") (simp add: formatChannelToRow_def)

lemma map_formatChannelToRow_trace:
  "trace (snd (map_formatChannelToRow rt cs i w)) = trace w"
proof (induction cs arbitrary: i w)
  case Nil
  then show ?case by simp
next
  case (Cons c cs)
  from Cons.IH [of "Suc i" "snd (formatChannelToRow rt c i w)"]
    formatChannelToRow_trace [of rt c i w]
  show ?case
    by (cases "formatChannelToRow rt c i w";
        cases "map_formatChannelToRow rt cs (Suc i) (snd (formatChannelToRow rt c i w))") simp
qed

lemma map_formatChannelToRow_subscribes:
  assumes "map_formatChannelToRow rt cs i w = (rows, w')"
  shows "subscribes w' = subscribes w"
  using map_formatChannelToRow_trace [of rt cs i w] assms by (simp add: subscribes_def)

lemma listChannels_keeps:
  assumes "priv_listChannels sv this w = (res, this1, w1)"
  shows "subscribed this1 = subscribed this \<and> subscribes w1 = subscribes w
         \<and> api this1 \<noteq> None"
proof (cases "priv_rippleApi sv this w")
  case (fields r this0 w0)
  with assms rippleApi_keeps [OF fields] show ?thesis
    by (cases r) (auto simp: priv_listChannels_def request_eq subscribes_emit console_log_def
        Let_def)
qed

lemma printChannels_keeps:
  assumes "priv_printChannels rt sv chans this w = (res, this1, w1)"
  shows "subscribed this1 = subscribed this \<and> subscribes w1 = subscribes w
         \<and> api this1 \<noteq> None"
proof (cases "priv_rippleApi sv this (console_log ''connecting to xrp ledger...'' w)")
  case (fields r this0 w0)
  note k = rippleApi_keeps [OF fields]
  show ?thesis
  proof (cases r)
    case (Inl err)
    with fields assms k show ?thesis
      by (auto simp: priv_printChannels_def subscribes_emit console_log_def Let_def)
  next
    case (Inr a)
    from Inr fields assms k show ?thesis
      by (auto simp: priv_printChannels_def request_eq subscribes_emit console_log_def
          console_error_def Let_def split: sum.splits prod.splits if_splits
          dest!: map_formatChannelToRow_subscribes)
  qed
qed

lemma closeChannels_subscribes:
  "subscribes (snd (closeChannels sv s chans w)) = subscribes w"
  by (induction sv s chans w rule: closeChannels.induct)
    (auto simp: submit_def request_eq subscribes_emit console_log_def console_error_def
      Let_def split: sum.splits)

lemma cleanup_session:
  assumes "\<not> subscribed this"
  shows "subscribes (snd (snd (cleanupChannels rt sv marked this w)))
           = subscribes w
             + (if subscribed (fst (snd (cleanupChannels rt sv marked this w))) then 1 else 0)"
proof (cases "priv_listChannels sv this w")
  case (fields r1 this1 w1)
  note l = listChannels_keeps [OF fields]
  show ?thesis
  proof (cases r1)
    case (Inl err)
    with fields l assms show ?thesis by (simp add: cleanupChannels_def)
  next
    case (Inr allChannels)
    note r1 = this
    obtain r2 this2 w2 where p: "priv_printChannels rt sv allChannels this1 w1 = (r2, this2, w2)"
      by (cases "priv_printChannels rt sv allChannels this1 w1") auto
    note k = printChannels_keeps [OF p]
    show ?thesis
    proof (cases r2)
      case (Inl err)
      with fields r1 p l k assms show ?thesis by (simp add: cleanupChannels_def)
    next
      case (Inr u)
      note r2 = this
      show ?thesis
      proof (cases "allChannels = []")
        case True
        with fields r1 p r2 l k assms show ?thesis by (simp add: cleanupChannels_def)
      next
        case False
        obtain r3 this3 w4 where
          s: "priv_submitter sv this2 (emit (Prompt ''marked'') w2) = (r3, this3, w4)"
          by (cases "priv_submitter sv this2 (emit (Prompt ''marked'') w2)") auto
        from submitter_step [OF s] l k assms
        have f: "subscribed this3" "subscribes w4 = subscribes w + 1"
          by (auto simp: subscribes_emit)
        show ?thesis
        proof (cases r3)
          case (Inl err)
          with fields r1 p r2 False s f show ?thesis
            by (simp add: cleanupChannels_def Let_def)
        next
          case (Inr sub)
          let ?chans = "map (\<lambda>index. if index < length allChannels
                                      then Some (allChannels ! index) else None) marked"
          obtain r4 w5 where c: "closeChannels sv sub ?chans w4 = (r4, w5)"
            by (cases "closeChannels sv sub ?chans w4") auto
          with closeChannels_subscribes [of sv sub ?chans w4]
          have "subscribes w5 = subscribes w4" by simp
          with Inr fields r1 p r2 False s f c show ?thesis
            by (simp add: cleanupChannels_def Let_def)
        qed
      qed
    qed
  qed
qed

text \<open>
  Claim C4. The submission path is invoked on an instance whose flag is unset and
  whose client is there: \<open>cleanupChannels\<close>, its only caller, has listed and printed
  the channels through the same client before (an instance whose client is still to
  be made, with a connection that opens, is covered as well). The first invocation
  then sends the subscribe request for the account, once, and sets the flag; after
  any number of invocations the count of subscribe requests is one more than before;
  an invocation on an instance whose flag is set sends none and leaves the flag set.
  For the cleanup command as a whole, on a new instance: the subscribe requests it has
  sent are one if it has set the flag and none otherwise.
\<close>

theorem submitter_subscribes_exactly_once:
  assumes "\<not> subscribed this"
    and "api this \<noteq> None
         \<or> connect_reply sv (trace w @ [Connect (xrpServer (pluginOpts this))]) = Inr ()"
  shows "filter is_subscribe (trace (snd (snd (priv_submitter sv this w))))
           = filter is_subscribe (trace w) @ [Subscribe [address (pluginOpts this)]]
         \<and> subscribed (fst (snd (priv_submitter sv this w)))
         \<and> (\<forall>n. subscribes (snd (submitter_times (Suc n) sv this w)) = subscribes w + 1)
         \<and> (\<forall>(this'::XrpUplink) w'. subscribed this' \<longrightarrow>
               filter is_subscribe (trace (snd (snd (priv_submitter sv this' w'))))
                 = filter is_subscribe (trace w')
               \<and> subscribed (fst (snd (priv_submitter sv this' w'))))
         \<and> subscribes (snd (snd (cleanup_handler rt sv marked cfg w0)))
             = subscribes w0
               + (if subscribed (fst (snd (cleanup_handler rt sv marked cfg w0))) then 1 else 0)"
proof -
  note first = submitter_first_subscribes [OF assms]
  have many: "\<forall>n. subscribes (snd (submitter_times (Suc n) sv this w)) = subscribes w + 1"
    using submitter_times_once [OF assms] by blast
  have later: "\<forall>(this'::XrpUplink) w'. subscribed this' \<longrightarrow>
               filter is_subscribe (trace (snd (snd (priv_submitter sv this' w'))))
                 = filter is_subscribe (trace w')
               \<and> subscribed (fst (snd (priv_submitter sv this' w')))"
  proof (intro allI impI)
    fix this' :: XrpUplink and w'
    assume s: "subscribed this'"
    obtain res this1 w1 where step: "priv_submitter sv this' w' = (res, this1, w1)"
      by (cases "priv_submitter sv this' w'") auto
    from submitter_step [OF step] s step
    show "filter is_subscribe (trace (snd (snd (priv_submitter sv this' w'))))
                 = filter is_subscribe (trace w')
               \<and> subscribed (fst (snd (priv_submitter sv this' w')))" by simp
  qed
  have session: "subscribes (snd (snd (cleanup_handler rt sv marked cfg w0)))
             = subscribes w0
               + (if subscribed (fst (snd (cleanup_handler rt sv marked cfg w0))) then 1 else 0)"
    unfolding cleanup_handler_def
    by (rule cleanup_session) (simp add: makeUplink_def)
  show ?thesis
    by (intro conjI first [THEN conjunct1] first [THEN conjunct2, THEN conjunct1]
        many later session)
qed

lemma example_instances:
  "\<not> subscribed (makeUplink example_config)"
  "api ((makeUplink example_config)\<lparr>api := Some (RippleAPI ''wss://s1'')\<rparr>) \<noteq> None"
  "\<not> subscribed ((makeUplink example_config)\<lparr>api := Some (RippleAPI ''wss://s1'')\<rparr>)"
  "pluginOpts ((makeUplink example_config)\<lparr>api := Some (RippleAPI ''wss://s1'')\<rparr>)
     = options example_config"
  "pluginOpts (makeUplink example_config) = options example_config"
  "address (options example_config) = ''rAcct''"
  "xrpServer (options example_config) = ''wss://s1''"
  "subscribes example_world = 0"
  "trace example_world = []"
  by (simp_all add: makeUplink_def example_config_def configure_return_def field_value_def
      subscribes_def example_world_def Let_def)

theorem submitter_subscribes_exactly_once_witness:
  "\<not> subscribed ((makeUplink example_config)\<lparr>api := Some (RippleAPI ''wss://s1'')\<rparr>)
   \<and> api ((makeUplink example_config)\<lparr>api := Some (RippleAPI ''wss://s1'')\<rparr>) \<noteq> None
   \<and> filter is_subscribe
       (trace (snd (snd (priv_submitter example_services
          ((makeUplink example_config)\<lparr>api := Some (RippleAPI ''wss://s1'')\<rparr>)
          example_world))))
     = [Subscribe [''rAcct'']]
   \<and> subscribes (snd (submitter_times 3 example_services
        ((makeUplink example_config)\<lparr>api := Some (RippleAPI ''wss://s1'')\<rparr>)
        example_world)) = 1
   \<and> connect_reply example_services
       (trace example_world @ [Connect (xrpServer (pluginOpts (makeUplink example_config)))])
     = Inr ()
   \<and> subscribes (snd (submitter_times 1 example_services (makeUplink example_config)
        example_world)) = 1
   \<and> subscribed ((makeUplink example_config)\<lparr>subscribed := True\<rparr>)
   \<and> filter is_subscribe
       (trace (snd (snd (priv_submitter example_services
          ((makeUplink example_config)\<lparr>subscribed := True\<rparr>) example_world))))
     = []
   \<and> subscribes (snd (snd (cleanup_handler example_runtime example_services [0, 1, 2]
        example_config example_world))) = 1"
proof -
  let ?ready = "(makeUplink example_config)\<lparr>api := Some (RippleAPI ''wss://s1'')\<rparr>"
  have c: "connect_reply example_services
       (trace example_world @ [Connect (xrpServer (pluginOpts (makeUplink example_config)))])
     = Inr ()"
    by (simp add: example_services_def)
  have s: "subscribed ((makeUplink example_config)\<lparr>subscribed := True\<rparr>)" by simp
  note t1 = submitter_subscribes_exactly_once
    [of ?ready example_services example_world example_runtime "[0, 1, 2]" example_config
       example_world, OF example_instances(3) disjI1 [OF example_instances(2)]]
  note t2 = submitter_subscribes_exactly_once
    [of "makeUplink example_config" example_services example_world example_runtime
       "[0, 1, 2]" example_config example_world, OF example_instances(1) disjI2 [OF c]]
  from t1 have 1: "filter is_subscribe
       (trace (snd (snd (priv_submitter example_services ?ready example_world))))
     = [Subscribe [''rAcct'']]"
    by (simp add: example_instances)
  from t1 [THEN conjunct2, THEN conjunct2, THEN conjunct1, THEN spec, of 2]
  have 2: "subscribes (snd (submitter_times 3 example_services ?ready example_world)) = 1"
    by (simp add: example_instances eval_nat_numeral)
  from t2 [THEN conjunct2, THEN conjunct2, THEN conjunct1, THEN spec, of 0]
  have 3: "subscribes (snd (submitter_times 1 example_services (makeUplink example_config)
        example_world)) = 1"
    by (simp add: example_instances)
  from t1 [THEN conjunct2, THEN conjunct2, THEN conjunct2, THEN conjunct1, THEN spec,
      THEN spec, of "(makeUplink example_config)\<lparr>subscribed := True\<rparr>" example_world] s
  have 4: "filter is_subscribe
       (trace (snd (snd (priv_submitter example_services
          ((makeUplink example_config)\<lparr>subscribed := True\<rparr>) example_world))))
     = []"
    by (simp add: example_instances)
  have flag: "subscribed (fst (snd (cleanup_handler example_runtime example_services [0, 1, 2]
        example_config example_world)))"
    by (simp add: cleanup_handler_def cleanupChannels_def priv_listChannels_def
      priv_printChannels_def priv_submitter_def priv_rippleApi_def makeUplink_def
      createSubmitter_def submit_def request_eq trace_emit emit_def console_log_def
      console_error_def example_services_def example_config_def configure_return_def
      example_world_def channel_A_def channel_B_def channel_C_def Error_def Let_def
      formatChannelToRow_def formatChannelExpiration_def now_def field_value_def
      example_runtime_def btpName_of_def falsy_def)
  from t1 [THEN conjunct2, THEN conjunct2, THEN conjunct2, THEN conjunct2] flag
  have 5: "subscribes (snd (snd (cleanup_handler example_runtime example_services [0, 1, 2]
        example_config example_world))) = 1"
    by (simp add: example_instances)
  show ?thesis
    by (intro conjI example_instances(3) example_instances(2) 1 2 c 3 s 4 5)
qed

text \<open>
  Claim C10. On any instance whose flag is unset, when the invocation of
  \<open>_submitter\<close> has its client (there already, or made and connected now) and the
  subscribe request is refused: the invocation fails with the error of the request and
  leaves the flag set; the subscribe request is counted once and, however many
  invocations follow, never sent again; the next invocation returns a submitter.
\<close>

theorem submitter_subscribe_failure_not_retried:
  assumes "\<not> subscribed this"
    and "priv_rippleApi sv this w = (Inr a, this1, w1)"
    and "subscribe_reply sv (trace w1 @ [Subscribe [address (pluginOpts this)]]) = Inl err"
  shows "fst (priv_submitter sv this w) = Inl err
         \<and> subscribed (fst (snd (priv_submitter sv this w)))
         \<and> subscribes (snd (snd (priv_submitter sv this w))) = subscribes w + 1
         \<and> (\<forall>n. subscribes (snd (submitter_times n sv
                      (fst (snd (priv_submitter sv this w)))
                      (snd (snd (priv_submitter sv this w)))))
                  = subscribes w + 1)
         \<and> (\<forall>n. subscribes (snd (submitter_times (Suc n) sv this w)) = subscribes w + 1)
         \<and> \<not> isl (fst (priv_submitter sv
                      (fst (snd (priv_submitter sv this w)))
                      (snd (snd (priv_submitter sv this w)))))"
proof -
  note k = rippleApi_keeps [OF assms(2)]
  from submitter_first [OF assms(1,2)] assms(3)
  have step: "priv_submitter sv this w
      = (Inl err, this1\<lparr>subscribed := True\<rparr>, emit (Subscribe [address (pluginOpts this)]) w1)"
    by simp
  let ?this2 = "this1\<lparr>subscribed := True\<rparr>"
  let ?w2 = "emit (Subscribe [address (pluginOpts this)]) w1"
  have count: "subscribes ?w2 = subscribes w + 1"
    using k by (simp add: subscribes_emit)
  have later: "subscribes (snd (submitter_times n sv ?this2 ?w2)) = subscribes w + 1" for n
    using submitter_times_subscribed [of ?this2 n sv ?w2] count by simp
  have again: "\<not> isl (fst (priv_submitter sv ?this2 ?w2))"
    using k by (auto simp: priv_submitter_def priv_rippleApi_def split: option.splits)
  from step count later again show ?thesis by simp
qed

theorem submitter_subscribe_failure_not_retried_witness:
  "\<not> subscribed ((makeUplink example_config)\<lparr>api := Some (RippleAPI ''wss://s1'')\<rparr>)
   \<and> priv_rippleApi unsubscribable_services
       ((makeUplink example_config)\<lparr>api := Some (RippleAPI ''wss://s1'')\<rparr>) example_world
     = (Inr (RippleAPI ''wss://s1''),
        (makeUplink example_config)\<lparr>api := Some (RippleAPI ''wss://s1'')\<rparr>, example_world)
   \<and> fst (priv_submitter unsubscribable_services
        ((makeUplink example_config)\<lparr>api := Some (RippleAPI ''wss://s1'')\<rparr>) example_world)
     = Inl (Error ''noPermission'')
   \<and> subscribed (fst (snd (priv_submitter unsubscribable_services
        ((makeUplink example_config)\<lparr>api := Some (RippleAPI ''wss://s1'')\<rparr>) example_world)))
   \<and> subscribes (snd (submitter_times 5 unsubscribable_services
        ((makeUplink example_config)\<lparr>api := Some (RippleAPI ''wss://s1'')\<rparr>) example_world)) = 1
   \<and> fst (priv_submitter unsubscribable_services (makeUplink example_config) example_world)
     = Inl (Error ''noPermission'')
   \<and> subscribes (snd (submitter_times 5 unsubscribable_services (makeUplink example_config)
        example_world)) = 1"
proof -
  let ?ready = "(makeUplink example_config)\<lparr>api := Some (RippleAPI ''wss://s1'')\<rparr>"
  have p1: "priv_rippleApi unsubscribable_services ?ready example_world
     = (Inr (RippleAPI ''wss://s1''), ?ready, example_world)"
    by (simp add: priv_rippleApi_def)
  have r1: "subscribe_reply unsubscribable_services
     (trace example_world @ [Subscribe [address (pluginOpts ?ready)]])
     = Inl (Error ''noPermission'')"
    by (simp add: unsubscribable_services_def example_services_def)
  have p2: "priv_rippleApi unsubscribable_services (makeUplink example_config) example_world
     = (Inr (RippleAPI ''wss://s1''),
        (makeUplink example_config)\<lparr>api := Some (RippleAPI ''wss://s1'')\<rparr>,
        emit (Connect ''wss://s1'') example_world)"
    by (simp add: priv_rippleApi_def request_eq unsubscribable_services_def
        example_services_def example_instances makeUplink_def Let_def)
  have r2: "subscribe_reply unsubscribable_services
     (trace (emit (Connect ''wss://s1'') example_world)
        @ [Subscribe [address (pluginOpts (makeUplink example_config))]])
     = Inl (Error ''noPermission'')"
    by (simp add: unsubscribable_services_def example_services_def)
  note t1 = submitter_subscribe_failure_not_retried [OF example_instances(3) p1 r1]
  note t2 = submitter_subscribe_failure_not_retried [OF example_instances(1) p2 r2]
  from t1 have 1: "fst (priv_submitter unsubscribable_services ?ready example_world)
     = Inl (Error ''noPermission'')" by (rule conjunct1)
  from t1 have 2: "subscribed (fst (snd (priv_submitter unsubscribable_services ?ready
     example_world)))" by simp
  from t1 [THEN conjunct2, THEN conjunct2, THEN conjunct2, THEN conjunct2, THEN conjunct1,
      THEN spec, of 4]
  have 3: "subscribes (snd (submitter_times 5 unsubscribable_services ?ready example_world)) = 1"
    by (simp add: example_instances eval_nat_numeral)
  from t2 have 4: "fst (priv_submitter unsubscribable_services (makeUplink example_config)
     example_world) = Inl (Error ''noPermission'')" by (rule conjunct1)
  from t2 [THEN conjunct2, THEN conjunct2, THEN conjunct2, THEN conjunct2, THEN conjunct1,
      THEN spec, of 4]
  have 5: "subscribes (snd (submitter_times 5 unsubscribable_services
     (makeUplink example_config) example_world)) = 1"
    by (simp add: example_instances eval_nat_numeral)
  show ?thesis by (intro conjI example_instances(3) p1 1 2 3 4 5)
qed

subsection \<open>Configuration\<close>

lemma hmac_eq: "hmac rt key msg = hmac_digest rt ''sha256'' key msg"
  by (simp add: hmac_def createHmac_def Hmac_update_def Hmac_digest_def)

lemma configure_return_server:
  "server (options (configure_return rt res))
     = btp_uri_spec rt (field_value res ''parent'') (btpName_of res) (field_value res ''secret'')"
  by (simp add: configure_return_def btp_uri_spec_def deriveSecret_spec_def hmac_eq
      parentBtpHmacKey_def Let_def)

lemma configure_return_secret:
  "secret (options (configure_return rt res)) = field_value res ''secret''"
  by (simp add: configure_return_def Let_def)

lemma field_value_upd:
  "field_value (res(k \<mapsto> v)) k' = (if k' = k then v else field_value res k')"
  by (simp add: field_value_def)

lemma btpName_of_upd: "k \<noteq> ''name'' \<Longrightarrow> btpName_of (res(k \<mapsto> v)) = btpName_of res"
  by (simp add: btpName_of_def field_value_def)

lemma btpName_of_with_address: "btpName_of (with_address rt res) = btpName_of res"
  by (simp add: with_address_def btpName_of_upd)

lemma field_value_with_address:
  "k \<noteq> ''address'' \<Longrightarrow> field_value (with_address rt res) k = field_value res k"
  by (simp add: with_address_def field_value_upd)

lemma configure_cases:
  "configure rt sv inp w =
     (let (res, w1) = gathered rt inp w
      in if faucet_path rt inp w then
           (case faucet_reply sv (trace w1 @ [ConsoleLog ''acquiring testnet account...'',
                   HttpPost ''https://faucet.altnet.rippletest.net/accounts'']) of
              Inl err \<Rightarrow>
                (Rejected err,
                 emit (HttpPost ''https://faucet.altnet.rippletest.net/accounts'')
                   (console_log ''acquiring testnet account...'' w1))
            | Inr account \<Rightarrow>
                (Returned (configure_return rt
                    (res(''address'' \<mapsto> account_address account,
                         ''secret'' \<mapsto> account_secret account))),
                 emit (SetTimeout 10000)
                   (console_log ''waiting for testnet API to fund address...''
                     (console_log (''got testnet address '' @ [dquote] @
                                   account_address account @ [dquote])
                       (emit (HttpPost ''https://faucet.altnet.rippletest.net/accounts'')
                         (console_log ''acquiring testnet account...'' w1))))))
         else
           (case validateAddress rt sv (field_value res ''xrpServer'')
                   (field_value (with_address rt res) ''address'') w1 of
              (Inl err, w2) \<Rightarrow>
                (Exited 1,
                 emit (ProcessExit 1)
                   (console_error (''Error configuring uplink: '' @ message err) w2))
            | (Inr u, w2) \<Rightarrow> (Returned (configure_return rt (with_address rt res)), w2)))"
  by (simp add: configure_def gathered_def faucet_path_def with_address_def request_eq
      console_log_def trace_emit field_value_upd Let_def
      split: prod.splits sum.splits)

lemma prompt_fields_requests:
  "filter is_ledger_request (trace (snd (prompt_fields inp fs res w)))
     = filter is_ledger_request (trace w)"
  by (induction fs arbitrary: res w) (auto simp: trace_emit split: option.splits)

lemma gathered_secret:
  "fst (gathered rt inp w) ''secret''
     = Some (if testnet inp \<and> \<not> advanced inp then [] else answer inp ''secret'')"
  by (simp add: gathered_def fields_def Let_def split: option.splits)

lemma faucet_path_eq:
  "faucet_path rt inp w = (testnet inp \<and> (\<not> advanced inp \<or> answer inp ''secret'' = []))"
  by (auto simp: faucet_path_def gathered_secret falsy_def)

lemma validateAddress_starts:
  "take (Suc (length (trace w))) (trace (snd (validateAddress rt sv srv addr w)))
     = trace w @ [Connect srv]"
  by (simp add: validateAddress_def request_eq trace_emit Let_def split: sum.splits)

lemma configure_faucet:
  assumes "faucet_path rt inp w"
  shows "filter is_ledger_request (trace (snd (configure rt sv inp w)))
           = filter is_ledger_request (trace w)
         \<and> (\<forall>n. fst (configure rt sv inp w) \<noteq> Exited n)"
proof -
  obtain res w1 where g: "gathered rt inp w = (res, w1)" by (cases "gathered rt inp w") auto
  then have "filter is_ledger_request (trace w1) = filter is_ledger_request (trace w)"
    using prompt_fields_requests [of inp "fields rt inp" Map.empty w]
    by (simp add: gathered_def)
  with assms g show ?thesis
    by (simp add: configure_cases console_log_def trace_emit split: sum.splits)
qed

lemma configure_validated:
  assumes "\<not> faucet_path rt inp w"
  shows "let (res, w1) = gathered rt inp w;
             srv = field_value res ''xrpServer'';
             addr = field_value (with_address rt res) ''address'';
             (r, w2) = validateAddress rt sv srv addr w1
         in take (Suc (length (trace w1))) (trace w2) = trace w1 @ [Connect srv]
            \<and> (\<forall>err. r = Inl err \<longrightarrow>
                  configure rt sv inp w
                    = (Exited 1,
                       emit (ProcessExit 1)
                         (console_error (''Error configuring uplink: '' @ message err) w2)))
            \<and> (r = Inr () \<longrightarrow>
                  configure rt sv inp w
                    = (Returned (configure_return rt (with_address rt res)), w2))
            \<and> (\<forall>cfg. fst (configure rt sv inp w) = Returned cfg \<longrightarrow>
                  r = Inr () \<and> snd (configure rt sv inp w) = w2)"
proof -
  obtain res w1 where g: "gathered rt inp w = (res, w1)" by (cases "gathered rt inp w") auto
  obtain r w2 where v: "validateAddress rt sv (field_value res ''xrpServer'')
      (field_value (with_address rt res) ''address'') w1 = (r, w2)"
    by (cases "validateAddress rt sv (field_value res ''xrpServer'')
      (field_value (with_address rt res) ''address'') w1") auto
  from validateAddress_starts [of w1 rt sv "field_value res ''xrpServer''"
      "field_value (with_address rt res) ''address''"] v
  have st: "take (Suc (length (trace w1))) (trace w2)
      = trace w1 @ [Connect (field_value res ''xrpServer'')]" by simp
  from assms g v st show ?thesis
    by (cases r) (simp_all add: configure_cases Let_def)
qed

lemma configure_returned:
  assumes "configure rt sv inp w = (Returned cfg, w')"
  shows "\<exists>res'. cfg = configure_return rt res'
           \<and> field_value res' ''parent'' = field_value (fst (gathered rt inp w)) ''parent''
           \<and> btpName_of res' = btpName_of (fst (gathered rt inp w))"
proof -
  obtain res w1 where g: "gathered rt inp w = (res, w1)" by (cases "gathered rt inp w") auto
  show ?thesis
  proof (cases "faucet_path rt inp w")
    case True
    with assms g obtain account :: faucet_account where
      "cfg = configure_return rt (res(''address'' \<mapsto> account_address account,
                                       ''secret'' \<mapsto> account_secret account))"
      by (auto simp: configure_cases split: sum.splits)
    with g show ?thesis
      by (intro exI [of _ "res(''address'' \<mapsto> account_address account,
                               ''secret'' \<mapsto> account_secret account)"])
        (simp add: field_value_upd btpName_of_upd)
  next
    case False
    with assms g have "cfg = configure_return rt (with_address rt res)"
      by (auto simp: configure_cases split: prod.splits sum.splits)
    with g show ?thesis
      by (intro exI [of _ "with_address rt res"])
        (simp add: field_value_with_address btpName_of_with_address)
  qed
qed

lemma example_secret_hex:
  "deriveSecret_spec example_runtime ''host.example'' ''chan'' ''sSeed''
     = ''706172656e745f6274705f757269686f73742e6578616d706c656368616e7353656564''"
  by (simp add: deriveSecret_spec_def toString_hex_def hex_digit_def example_runtime_def)

lemma example_gathered_live:
  "gathered example_runtime live_input example_world
      = ([''parent'' \<mapsto> ''host.example'', ''name'' \<mapsto> ''ab-_'', ''secret'' \<mapsto> ''sSeed'',
          ''xrpServer'' \<mapsto> ''wss://s1''],
         emit (Prompt ''secret'') example_world)"
  by (simp add: gathered_def fields_def random_element_def base64url_def live_input_def
      example_runtime_def Let_def)

lemma example_with_address_live:
  "with_address example_runtime
     [''parent'' \<mapsto> ''host.example'', ''name'' \<mapsto> ''ab-_'', ''secret'' \<mapsto> ''sSeed'',
      ''xrpServer'' \<mapsto> ''wss://s1'']
   = [''parent'' \<mapsto> ''host.example'', ''name'' \<mapsto> ''ab-_'', ''secret'' \<mapsto> ''sSeed'',
      ''xrpServer'' \<mapsto> ''wss://s1'', ''address'' \<mapsto> ''rsSeed'']"
  by (simp add: with_address_def falsy_def field_value_def example_runtime_def)

lemma example_validate_poor:
  "validateAddress example_runtime poor_services ''wss://s1'' ''rsSeed''
     (emit (Prompt ''secret'') example_world)
   = (Inl (Error ''account balance is too low (must be at least 1000041)''),
      emit GetServerInfo (emit (GetAccountInfo ''rsSeed'')
        (emit (Connect ''wss://s1'') (emit (Prompt ''secret'') example_world))))"
  by (simp add: validateAddress_def request_eq poor_services_def example_services_def
      example_numbers Let_def)

lemma example_validate_rich:
  "validateAddress example_runtime example_services ''wss://s1'' ''rsSeed''
     (emit (Prompt ''secret'') example_world)
   = (Inr (),
      emit GetServerInfo (emit (GetAccountInfo ''rsSeed'')
        (emit (Connect ''wss://s1'') (emit (Prompt ''secret'') example_world))))"
  by (simp add: validateAddress_def request_eq example_services_def example_numbers Let_def)

text \<open>
  Claim C1. The function \<open>hmac\<close> is the library's keyed hash with SHA-256. For
  every parent host, channel name and seed in \<open>res\<close>, the \<open>server\<close> option of the
  configuration is the reference URI: the scheme, the channel name, a colon, the
  hexadecimal form of HMAC(HMAC("parent_btp_uri", parent host followed by channel
  name), seed), an at sign and the parent host; the \<open>secret\<close> option is the seed.
  Whenever \<open>configure\<close> returns, the URI it returns is the reference URI of the
  gathered parent and name and the secret it returns. The URI depends on nothing but
  these three: two objects that agree on them give the same URI.
\<close>

theorem configure_server_is_reference_uri:
  "hmac rt key msg = hmac_digest rt ''sha256'' key msg
   \<and> server (options (configure_return rt res))
       = btp_uri_spec rt (field_value res ''parent'') (btpName_of res) (field_value res ''secret'')
   \<and> (res ''parent'' = Some parentHost \<and> res ''name'' = Some channelName
        \<and> res ''secret'' = Some seed \<longrightarrow>
        server (options (configure_return rt res))
          = ''btp+wss://'' @ channelName @ '':'' @
            deriveSecret_spec rt parentHost channelName seed @ ''@'' @ parentHost
        \<and> secret (options (configure_return rt res)) = seed)
   \<and> (\<forall>cfg w'. configure rt sv inp w = (Returned cfg, w') \<longrightarrow>
         server (options cfg)
           = btp_uri_spec rt (field_value (fst (gathered rt inp w)) ''parent'')
               (btpName_of (fst (gathered rt inp w))) (secret (options cfg)))
   \<and> (\<forall>res'. field_value res' ''parent'' = field_value res ''parent''
         \<and> btpName_of res' = btpName_of res
         \<and> field_value res' ''secret'' = field_value res ''secret'' \<longrightarrow>
         server (options (configure_return rt res')) = server (options (configure_return rt res)))"
proof -
  have named: "res ''parent'' = Some parentHost \<and> res ''name'' = Some channelName
        \<and> res ''secret'' = Some seed \<longrightarrow>
        server (options (configure_return rt res))
          = ''btp+wss://'' @ channelName @ '':'' @
            deriveSecret_spec rt parentHost channelName seed @ ''@'' @ parentHost
        \<and> secret (options (configure_return rt res)) = seed"
    by (auto simp: configure_return_server configure_return_secret btp_uri_spec_def
        field_value_def btpName_of_def falsy_def)
  have run: "\<forall>cfg w'. configure rt sv inp w = (Returned cfg, w') \<longrightarrow>
         server (options cfg)
           = btp_uri_spec rt (field_value (fst (gathered rt inp w)) ''parent'')
               (btpName_of (fst (gathered rt inp w))) (secret (options cfg))"
  proof (intro allI impI)
    fix cfg w'
    assume "configure rt sv inp w = (Returned cfg, w')"
    from configure_returned [OF this] obtain res' where
      "cfg = configure_return rt res'"
      "field_value res' ''parent'' = field_value (fst (gathered rt inp w)) ''parent''"
      "btpName_of res' = btpName_of (fst (gathered rt inp w))" by blast
    then show "server (options cfg)
           = btp_uri_spec rt (field_value (fst (gathered rt inp w)) ''parent'')
               (btpName_of (fst (gathered rt inp w))) (secret (options cfg))"
      by (simp add: configure_return_server configure_return_secret)
  qed
  have same: "\<forall>res'. field_value res' ''parent'' = field_value res ''parent''
         \<and> btpName_of res' = btpName_of res
         \<and> field_value res' ''secret'' = field_value res ''secret'' \<longrightarrow>
         server (options (configure_return rt res')) = server (options (configure_return rt res))"
    by (simp add: configure_return_server)
  show ?thesis
    by (rule conjI [OF hmac_eq conjI [OF configure_return_server
          conjI [OF named conjI [OF run same]]]])
qed

theorem configure_server_is_reference_uri_witness:
  "[''parent'' \<mapsto> ''host.example'', ''name'' \<mapsto> ''chan'', ''secret'' \<mapsto> ''sSeed'',
     ''address'' \<mapsto> ''rAcct'', ''xrpServer'' \<mapsto> ''wss://s1''] ''parent'' = Some ''host.example''
   \<and> [''parent'' \<mapsto> ''host.example'', ''name'' \<mapsto> ''chan'', ''secret'' \<mapsto> ''sSeed'',
       ''address'' \<mapsto> ''rAcct'', ''xrpServer'' \<mapsto> ''wss://s1''] ''name'' = Some ''chan''
   \<and> [''parent'' \<mapsto> ''host.example'', ''name'' \<mapsto> ''chan'', ''secret'' \<mapsto> ''sSeed'',
       ''address'' \<mapsto> ''rAcct'', ''xrpServer'' \<mapsto> ''wss://s1''] ''secret'' = Some ''sSeed''
   \<and> server (options example_config)
       = ''btp+wss://chan:706172656e745f6274705f757269686f73742e6578616d706c656368616e7353656564@host.example''
   \<and> secret (options example_config) = ''sSeed''
   \<and> server (options (configure_return example_runtime
           [''parent'' \<mapsto> ''host.example'', ''name'' \<mapsto> ''chan'', ''secret'' \<mapsto> ''sSeed'',
            ''address'' \<mapsto> ''rOther'', ''xrpServer'' \<mapsto> ''wss://s2'']))
       = server (options example_config)
   \<and> fst (configure example_runtime example_services live_input example_world)
       = Returned (configure_return example_runtime
           [''parent'' \<mapsto> ''host.example'', ''name'' \<mapsto> ''ab-_'', ''secret'' \<mapsto> ''sSeed'',
            ''xrpServer'' \<mapsto> ''wss://s1'', ''address'' \<mapsto> ''rsSeed''])
   \<and> server (options (configure_return example_runtime
           [''parent'' \<mapsto> ''host.example'', ''name'' \<mapsto> ''ab-_'', ''secret'' \<mapsto> ''sSeed'',
            ''xrpServer'' \<mapsto> ''wss://s1'', ''address'' \<mapsto> ''rsSeed'']))
       = btp_uri_spec example_runtime ''host.example'' ''ab-_'' ''sSeed''"
proof -
  let ?res = "[''parent'' \<mapsto> ''host.example'', ''name'' \<mapsto> ''chan'', ''secret'' \<mapsto> ''sSeed'',
      ''address'' \<mapsto> ''rAcct'', ''xrpServer'' \<mapsto> ''wss://s1'']"
  let ?other = "[''parent'' \<mapsto> ''host.example'', ''name'' \<mapsto> ''chan'', ''secret'' \<mapsto> ''sSeed'',
      ''address'' \<mapsto> ''rOther'', ''xrpServer'' \<mapsto> ''wss://s2'']"
  let ?live = "[''parent'' \<mapsto> ''host.example'', ''name'' \<mapsto> ''ab-_'', ''secret'' \<mapsto> ''sSeed'',
      ''xrpServer'' \<mapsto> ''wss://s1'', ''address'' \<mapsto> ''rsSeed'']"
  have p1: "?res ''parent'' = Some ''host.example''" by simp
  have p2: "?res ''name'' = Some ''chan''" by simp
  have p3: "?res ''secret'' = Some ''sSeed''" by simp
  note t = configure_server_is_reference_uri
    [of example_runtime _ _ ?res "''host.example''" "''chan''" "''sSeed''"
       example_services live_input example_world]
  from t p1 p2 p3 have u: "server (options (configure_return example_runtime ?res))
          = ''btp+wss://'' @ ''chan'' @ '':'' @
            deriveSecret_spec example_runtime ''host.example'' ''chan'' ''sSeed'' @
            ''@'' @ ''host.example''
        \<and> secret (options (configure_return example_runtime ?res)) = ''sSeed''"
    by blast
  from u have 1: "server (options example_config)
       = ''btp+wss://chan:706172656e745f6274705f757269686f73742e6578616d706c656368616e7353656564@host.example''"
    by (simp add: example_config_def example_secret_hex)
  from u have 2: "secret (options example_config) = ''sSeed''"
    by (simp add: example_config_def)
  have agree: "field_value ?other ''parent'' = field_value ?res ''parent''
      \<and> btpName_of ?other = btpName_of ?res
      \<and> field_value ?other ''secret'' = field_value ?res ''secret''"
    by (simp add: field_value_def btpName_of_def)
  from t [THEN conjunct2, THEN conjunct2, THEN conjunct2, THEN conjunct2, THEN spec,
      of ?other] agree
  have "server (options (configure_return example_runtime ?other))
           = server (options (configure_return example_runtime ?res))"
    by (rule mp)
  then have 5: "server (options (configure_return example_runtime ?other))
           = server (options example_config)"
    by (simp add: example_config_def)
  have f: "\<not> faucet_path example_runtime live_input example_world"
    by (simp add: faucet_path_eq live_input_def)
  have c: "configure example_runtime example_services live_input example_world
      = (Returned (configure_return example_runtime ?live),
         emit GetServerInfo (emit (GetAccountInfo ''rsSeed'')
           (emit (Connect ''wss://s1'') (emit (Prompt ''secret'') example_world))))"
    using f by (simp add: configure_cases example_gathered_live example_with_address_live
        example_validate_rich field_value_def)
  from c have 3: "fst (configure example_runtime example_services live_input example_world)
       = Returned (configure_return example_runtime ?live)" by simp
  from t c have 4: "server (options (configure_return example_runtime ?live))
       = btp_uri_spec example_runtime ''host.example'' ''ab-_'' ''sSeed''"
    by (simp add: example_gathered_live field_value_def btpName_of_def falsy_def
        configure_return_secret)
  show ?thesis by (intro conjI p1 p2 p3 1 2 5 3 4)
qed

text \<open>
  Claim C7. The faucet path is taken exactly in testnet mode with no secret supplied
  (not asked for, or answered with the empty string). On the faucet path no request is
  sent to a rippled server, so no validation runs, and the process does not exit. On
  every other path validation runs in the world the prompts left, its connect request
  the next event; when it fails the process exits with code 1 after one error line and
  nothing is returned; when it succeeds the configuration is returned in the world
  validation left; and a configuration is returned only so.
\<close>

theorem configure_validates_before_returning:
  "faucet_path rt inp w = (testnet inp \<and> (\<not> advanced inp \<or> answer inp ''secret'' = []))
   \<and> (faucet_path rt inp w \<longrightarrow>
        filter is_ledger_request (trace (snd (configure rt sv inp w)))
          = filter is_ledger_request (trace w)
        \<and> (\<forall>n. fst (configure rt sv inp w) \<noteq> Exited n))
   \<and> (\<not> faucet_path rt inp w \<longrightarrow>
        (let (res, w1) = gathered rt inp w;
             srv = field_value res ''xrpServer'';
             addr = field_value (with_address rt res) ''address'';
             (r, w2) = validateAddress rt sv srv addr w1
         in take (Suc (length (trace w1))) (trace w2) = trace w1 @ [Connect srv]
            \<and> (\<forall>err. r = Inl err \<longrightarrow>
                  configure rt sv inp w
                    = (Exited 1,
                       emit (ProcessExit 1)
                         (console_error (''Error configuring uplink: '' @ message err) w2)))
            \<and> (r = Inr () \<longrightarrow>
                  configure rt sv inp w
                    = (Returned (configure_return rt (with_address rt res)), w2))
            \<and> (\<forall>cfg. fst (configure rt sv inp w) = Returned cfg \<longrightarrow>
                  r = Inr () \<and> snd (configure rt sv inp w) = w2)))"
  by (rule conjI [OF faucet_path_eq conjI [OF impI [OF configure_faucet]
      impI [OF configure_validated]]])

theorem configure_validates_before_returning_witness:
  "faucet_path example_runtime testnet_input example_world
   \<and> filter is_ledger_request
       (trace (snd (configure example_runtime example_services testnet_input example_world)))
     = []
   \<and> \<not> faucet_path example_runtime live_input example_world
   \<and> fst (configure example_runtime poor_services live_input example_world) = Exited 1
   \<and> fst (configure example_runtime example_services live_input example_world)
     = Returned (configure_return example_runtime
         [''parent'' \<mapsto> ''host.example'', ''name'' \<mapsto> ''ab-_'', ''secret'' \<mapsto> ''sSeed'',
          ''xrpServer'' \<mapsto> ''wss://s1'', ''address'' \<mapsto> ''rsSeed''])"
proof -
  note t1 = configure_validates_before_returning
    [of example_runtime testnet_input example_world example_services]
  note t2 = configure_validates_before_returning
    [of example_runtime live_input example_world poor_services]
  note t3 = configure_validates_before_returning
    [of example_runtime live_input example_world example_services]
  from t1 have 1: "faucet_path example_runtime testnet_input example_world"
    by (simp add: testnet_input_def)
  from t1 1 have 2: "filter is_ledger_request
       (trace (snd (configure example_runtime example_services testnet_input example_world)))
     = []"
    by (simp add: example_world_def)
  from t2 have 3: "\<not> faucet_path example_runtime live_input example_world"
    by (simp add: live_input_def)
  from t2 3 have 4: "fst (configure example_runtime poor_services live_input example_world)
     = Exited 1"
    by (simp add: example_gathered_live example_with_address_live example_validate_poor
        field_value_def Let_def)
  from t3 3 have 5: "fst (configure example_runtime example_services live_input example_world)
     = Returned (configure_return example_runtime
         [''parent'' \<mapsto> ''host.example'', ''name'' \<mapsto> ''ab-_'', ''secret'' \<mapsto> ''sSeed'',
          ''xrpServer'' \<mapsto> ''wss://s1'', ''address'' \<mapsto> ''rsSeed''])"
    by (simp add: example_gathered_live example_with_address_live example_validate_rich
        field_value_def Let_def)
  show ?thesis by (intro conjI 1 2 3 4 5)
qed

end
